theory Spec2Isabelle
  imports Complex_Main "HOL-Library.Log_Nat" "HOL-Library.Char_ord"
begin

section \<open>Runtime model shared by the notebooks\<close>

text \<open>
  The repository is a set of notebook cells and one R Markdown recipe. Each complete
  example is a straight line of statements that call NumPy, SciPy, Keras or R packages.
  A cell is modelled as a function from the state of the machine it runs on to that
  state after the cell, paired with either the exception that ended the cell or the
  variables it bound. The code of the packages is not part of the repository. A package
  function whose result a cell only passes on (random numbers, test statistics, training,
  prediction, serialization) is a parameter, collected in records of functions, and a
  theorem about the cell holds for every behaviour of the package. A package function
  that the notebooks themselves define by a formula or describe step by step (the
  covariance functions of NumPy, the checkpoint callback of Keras) is modelled from that
  description, and the text before its definition quotes it.
\<close>

datatype error =
    ValueError
  | KeyError
  | IndexError
  | ZeroDivisionError
  | FileNotFoundError
  | LibraryError string

text \<open>What a cell leaves on the screen: formatted lines, printed arrays, figures.\<close>

datatype 'v printed =
    Fmt string 'v
  | PrintVec "'v list"
  | PrintNum "'v option"
  | PrintMat "'v option list list"
  | Scatter "'v list" "'v list"

text \<open>
  The machine: the state of the runtime's global random generator, the console, the
  files of the working directory and the parallel backend registered with the runtime
  (\<open>None\<close> when no backend was registered).
\<close>

record ('g, 'c, 'o) world =
  rng :: 'g
  console :: "'o list"
  files :: "string \<rightharpoonup> 'c"
  workers :: "nat option"

definition print_line :: "'o \<Rightarrow> ('g, 'c, 'o) world \<Rightarrow> ('g, 'c, 'o) world" where
  "print_line l w = w\<lparr>console := console w @ [l]\<rparr>"

section \<open>Double precision arithmetic\<close>

text \<open>
  NumPy's \<open>rand\<close> returns arrays of IEEE 754 binary64 numbers and \<open>*\<close> and \<open>+\<close> on
  them round every element to the nearest binary64 number, ties to the even significand.
  A finite binary64 number is a rational, so the arrays are \<open>rat list\<close> and each
  operation is the exact rational operation followed by \<open>fl\<close>, the rounding to 53
  significant bits. The exponent range of binary64 is not modelled: \<open>fl\<close> is what
  binary64 does for a result that is zero or lies between \<open>2 powi -1022\<close> and
  \<open>2 powi 1024\<close> in magnitude. The draws of \<open>rand\<close> are multiples of
  \<open>2 powi -53\<close> below one, so every number the notebook computes from them is zero or
  lies between \<open>2 powi -53\<close> and 32.
\<close>

definition expo :: "rat \<Rightarrow> int" where
  "expo x = (let (p, q) = quotient_of \<bar>x\<bar>; d = bitlen p - bitlen q
             in if 2 powi d * of_int q \<le> (of_int p :: rat) then d else d - 1)"

definition ulp :: "rat \<Rightarrow> rat" where
  "ulp x = 2 powi (expo x - 52)"

definition rne :: "rat \<Rightarrow> int" where
  "rne t = (let f = \<lfloor>t\<rfloor>; r = t - of_int f
            in if r < 1 / 2 then f else if 1 / 2 < r then f + 1
               else if even f then f else f + 1)"

definition fl :: "rat \<Rightarrow> rat" where
  "fl x = (if x = 0 then 0 else of_int (rne (x / ulp x)) * ulp x)"

definition is_double :: "rat \<Rightarrow> bool" where
  "is_double x = (fl x = x)"

definition fmul :: "rat \<Rightarrow> rat \<Rightarrow> rat" where
  "fmul a b = fl (a * b)"

definition fadd :: "rat \<Rightarrow> rat \<Rightarrow> rat" where
  "fadd a b = fl (a + b)"

definition fsub :: "rat \<Rightarrow> rat \<Rightarrow> rat" where
  "fsub a b = fl (a - b)"

text \<open>
  Array arithmetic of NumPy on one-dimensional arrays: an array times a scalar, and the
  sum of two arrays, which broadcasts an array of length one and raises \<open>ValueError\<close>
  for any other pair of different lengths.
\<close>

definition np_scale :: "rat list \<Rightarrow> rat \<Rightarrow> rat list" where
  "np_scale a c = map (\<lambda>u. fmul u c) a"

definition np_add :: "rat list \<Rightarrow> rat list \<Rightarrow> error + rat list" where
  "np_add a b =
     (if length a = length b then Inr (map2 fadd a b)
      else if length b = 1 then Inr (map (\<lambda>u. fadd u (hd b)) a)
      else if length a = 1 then Inr (map (\<lambda>v. fadd (hd a) v) b)
      else Inl ValueError)"

section \<open>The rank correlation notebook\<close>

text \<open>
  \<open>numpy.random\<close>: \<open>seed(s)\<close> replaces the state of the global generator by the one
  that \<open>s\<close> determines, \<open>rand(n)\<close> draws \<open>n\<close> numbers and advances the generator.
  \<open>scipy.stats\<close>: \<open>spearmanr\<close> and \<open>kendalltau\<close> take two samples and return a
  coefficient and a p-value, or raise.
\<close>

record 'g numpy_random =
  seed :: "nat \<Rightarrow> 'g"
  rand :: "nat \<Rightarrow> 'g \<Rightarrow> rat list \<times> 'g"

record scipy_stats =
  spearmanr :: "rat list \<Rightarrow> rat list \<Rightarrow> error + rat \<times> rat"
  kendalltau :: "rat list \<Rightarrow> rat list \<Rightarrow> error + rat \<times> rat"

text \<open>What \<open>rand\<close> promises: \<open>n\<close> binary64 numbers in \<open>[0, 1)\<close>.\<close>

definition uniform_doubles :: "'g numpy_random \<Rightarrow> bool" where
  "uniform_doubles np =
     (\<forall>n g. length (fst (rand np n g)) = n \<and>
            (\<forall>u \<in> set (fst (rand np n g)). is_double u \<and> 0 \<le> u \<and> u < 1))"

text \<open>
  The cell \<open># prepare data\<close>:
  \<^verbatim>\<open>data1 = rand(1000) * 20\<close>,
  \<^verbatim>\<open>data2 = data1 + (rand(1000) * 10)\<close>.
\<close>

definition prepare_data ::
  "'g numpy_random \<Rightarrow> 'g \<Rightarrow> (error + rat list \<times> rat list) \<times> 'g" where
  "prepare_data np g =
     (let (u, g1) = rand np 1000 g;
          data1 = np_scale u 20;
          (v, g2) = rand np 1000 g1
      in case np_add data1 (np_scale v 10) of
           Inl e \<Rightarrow> (Inl e, g2)
         | Inr data2 \<Rightarrow> (Inr (data1, data2), g2))"

record rank_vars =
  data1 :: "rat list"
  data2 :: "rat list"
  coef :: rat
  pval :: rat

text \<open>
  The tail shared by the two correlation examples: print the coefficient, then compare
  the p-value with \<open>alpha = 0.05\<close> (the binary64 number nearest to one twentieth).
\<close>

definition report ::
  "string \<Rightarrow> rat \<Rightarrow> rat \<Rightarrow> ('g, 'c, rat printed) world \<Rightarrow> ('g, 'c, rat printed) world" where
  "report title c pv w =
     (let w1 = print_line (Fmt title c) w;
          alpha = fl (5 / 100)
      in if pv > alpha
         then print_line (Fmt ''Samples are uncorrelated (fail to reject H0) p=%.3f'' pv) w1
         else print_line (Fmt ''Samples are correlated (reject H0) p=%.3f'' pv) w1)"

text \<open>
  The complete example of the section "Test Dataset": seed, prepare the data, scatter
  plot.
\<close>

definition test_dataset_example ::
  "'g numpy_random \<Rightarrow> ('g, 'c, rat printed) world
     \<Rightarrow> (error + rat list \<times> rat list) \<times> ('g, 'c, rat printed) world" where
  "test_dataset_example np w =
     (let w1 = w\<lparr>rng := seed np 1\<rparr>;
          (r, g) = prepare_data np (rng w1);
          w2 = w1\<lparr>rng := g\<rparr>
      in case r of
           Inl e \<Rightarrow> (Inl e, w2)
         | Inr (d1, d2) \<Rightarrow> (Inr (d1, d2), print_line (Scatter d1 d2) w2))"

text \<open>The complete example of the section "Spearman's Rank Correlation".\<close>

definition spearman_example ::
  "'g numpy_random \<Rightarrow> scipy_stats \<Rightarrow> ('g, 'c, rat printed) world
     \<Rightarrow> (error + rank_vars) \<times> ('g, 'c, rat printed) world" where
  "spearman_example np st w =
     (let w1 = w\<lparr>rng := seed np 1\<rparr>;
          (r, g) = prepare_data np (rng w1);
          w2 = w1\<lparr>rng := g\<rparr>
      in case r of
           Inl e \<Rightarrow> (Inl e, w2)
         | Inr (d1, d2) \<Rightarrow>
             (case spearmanr st d1 d2 of
                Inl e \<Rightarrow> (Inl e, w2)
              | Inr (c, pv) \<Rightarrow>
                  (Inr \<lparr>data1 = d1, data2 = d2, coef = c, pval = pv\<rparr>,
                   report ''Spearmans correlation coefficient: %.3f'' c pv w2)))"

text \<open>The complete example of the section "Kendall's Rank Correlation".\<close>

definition kendall_example ::
  "'g numpy_random \<Rightarrow> scipy_stats \<Rightarrow> ('g, 'c, rat printed) world
     \<Rightarrow> (error + rank_vars) \<times> ('g, 'c, rat printed) world" where
  "kendall_example np st w =
     (let w1 = w\<lparr>rng := seed np 1\<rparr>;
          (r, g) = prepare_data np (rng w1);
          w2 = w1\<lparr>rng := g\<rparr>
      in case r of
           Inl e \<Rightarrow> (Inl e, w2)
         | Inr (d1, d2) \<Rightarrow>
             (case kendalltau st d1 d2 of
                Inl e \<Rightarrow> (Inl e, w2)
              | Inr (c, pv) \<Rightarrow>
                  (Inr \<lparr>data1 = d1, data2 = d2, coef = c, pval = pv\<rparr>,
                   report ''Kendall correlation coefficient: %.3f'' c pv w2)))"

text \<open>
  A generator for experiments: its state counts the calls of \<open>rand\<close> since the seed; the
  first call returns one half in every position, each later call the largest binary64
  number below one.
\<close>

definition two_draws :: "nat numpy_random" where
  "two_draws = \<lparr>seed = (\<lambda>s. 0),
                rand = (\<lambda>n g. (replicate n (if g = 0 then 1 / 2 else 1 - 1 / 2 ^ 53), g + 1))\<rparr>"

text \<open>
  A generator that breaks the promise of \<open>rand\<close>: after the first call it returns two
  numbers, whatever the number asked for.
\<close>

definition ragged_draws :: "nat numpy_random" where
  "ragged_draws = \<lparr>seed = (\<lambda>s. 0),
                   rand = (\<lambda>n g. (replicate (if g = 0 then n else 2) (1 / 2), g + 1))\<rparr>"

text \<open>A \<open>scipy.stats\<close> for experiments that rejects every pair of samples.\<close>

definition rejecting_stats :: scipy_stats where
  "rejecting_stats = \<lparr>spearmanr = (\<lambda>a b. Inl ValueError),
                      kendalltau = (\<lambda>a b. Inl (LibraryError ''kendalltau''))\<rparr>"

definition empty_world :: "(nat, 'c, 'o) world" where
  "empty_world = \<lparr>rng = 0, console = [], files = Map.empty, workers = None\<rparr>"

section \<open>The NumPy notebook: expected value, variance, covariance\<close>

text \<open>
  The notebook calls \<open>mean\<close>, \<open>var\<close>, \<open>std\<close>, \<open>cov\<close> and \<open>corrcoef\<close> of NumPy and
  states, cell by cell, the formula each of them computes:
  \<^verbatim>\<open>mu = sum(x1, x2, x3, ..., xn) . 1/n\<close>,
  \<^verbatim>\<open>sigma^2 = sum from 1 to n ( (xi - mu)^2 ) . 1 / (n - 1)\<close>,
  \<^verbatim>\<open>s = sqrt(sigma^2)\<close>,
  \<^verbatim>\<open>cov(X, Y) = sum (x - E[X]) * (y - E[Y]) * 1/(n - 1)\<close>,
  \<^verbatim>\<open>r = cov(X, Y) / sX sY\<close> and
  \<^verbatim>\<open>Sigma(ij) = cov(Xi, Xj)\<close>.

  Modelled from the spec: the code of NumPy is not part of the repository, so the five
  functions are the notebook's formulas, in exact real arithmetic. A formula that divides
  by zero has no value (\<open>None\<close>; NumPy prints \<open>nan\<close> there), and \<open>cov\<close> and
  \<open>corrcoef\<close> raise \<open>ValueError\<close> for two vectors of different lengths.
\<close>

definition mean :: "real list \<Rightarrow> real option" where
  "mean v = (if v = [] then None else Some (sum_list v * (1 / real (length v))))"

definition var :: "real list \<Rightarrow> real option" where
  "var v =
     (case mean v of
        None \<Rightarrow> None
      | Some mu \<Rightarrow>
          if length v < 2 then None
          else Some (sum_list (map (\<lambda>a. (a - mu)\<^sup>2) v) * (1 / real (length v - 1))))"

definition std :: "real list \<Rightarrow> real option" where
  "std v = map_option sqrt (var v)"

definition covariance :: "real list \<Rightarrow> real list \<Rightarrow> real option" where
  "covariance a b =
     (case (mean a, mean b) of
        (Some ma, Some mb) \<Rightarrow>
          if length a < 2 then None
          else Some (sum_list (map2 (\<lambda>u v. (u - ma) * (v - mb)) a b) * (1 / real (length a - 1)))
      | _ \<Rightarrow> None)"

definition correlation :: "real list \<Rightarrow> real list \<Rightarrow> real option" where
  "correlation a b =
     (case (covariance a b, std a, std b) of
        (Some c, Some sa, Some sb) \<Rightarrow> if sa * sb = 0 then None else Some (c / (sa * sb))
      | _ \<Rightarrow> None)"

definition cov :: "real list \<Rightarrow> real list \<Rightarrow> error + real option list list" where
  "cov a b =
     (if length a \<noteq> length b then Inl ValueError
      else Inr [[covariance a a, covariance a b], [covariance b a, covariance b b]])"

definition corrcoef :: "real list \<Rightarrow> real list \<Rightarrow> error + real option list list" where
  "corrcoef a b =
     (if length a \<noteq> length b then Inl ValueError
      else Inr [[correlation a a, correlation a b], [correlation b a, correlation b b]])"

text \<open>The two vectors every covariance cell of the notebook defines.\<close>

definition vec_x :: "real list" where
  "vec_x = [1, 2, 3, 4, 5, 6, 7, 8, 9]"

definition vec_y :: "real list" where
  "vec_y = [9, 8, 7, 6, 5, 4, 3, 2, 1]"

text \<open>
  The three cells on covariance, each as a function of the two vectors it defines:
  \<^verbatim>\<open>print(x); print(y); Sigma = cov(x,y)[0,1]; print(Sigma)\<close>,
  \<^verbatim>\<open>print(x); print(y); Sigma = corrcoef(x,y); print(Sigma)\<close> and
  \<^verbatim>\<open>print(x); print(y); Sigma = cov(x,y); print(Sigma)\<close>.
\<close>

definition covariance_cell ::
  "real list \<Rightarrow> real list \<Rightarrow> ('g, 'c, real printed) world
     \<Rightarrow> (error + real option) \<times> ('g, 'c, real printed) world" where
  "covariance_cell a b w =
     (let w1 = print_line (PrintVec a) w;
          w2 = print_line (PrintVec b) w1
      in case cov a b of
           Inl e \<Rightarrow> (Inl e, w2)
         | Inr S \<Rightarrow> (let Sigma' = S ! 0 ! 1 in (Inr Sigma', print_line (PrintNum Sigma') w2)))"

definition corrcoef_cell ::
  "real list \<Rightarrow> real list \<Rightarrow> ('g, 'c, real printed) world
     \<Rightarrow> (error + real option list list) \<times> ('g, 'c, real printed) world" where
  "corrcoef_cell a b w =
     (let w1 = print_line (PrintVec a) w;
          w2 = print_line (PrintVec b) w1
      in case corrcoef a b of
           Inl e \<Rightarrow> (Inl e, w2)
         | Inr Sigma' \<Rightarrow> (Inr Sigma', print_line (PrintMat Sigma') w2))"

definition covariance_matrix_cell ::
  "real list \<Rightarrow> real list \<Rightarrow> ('g, 'c, real printed) world
     \<Rightarrow> (error + real option list list) \<times> ('g, 'c, real printed) world" where
  "covariance_matrix_cell a b w =
     (let w1 = print_line (PrintVec a) w;
          w2 = print_line (PrintVec b) w1
      in case cov a b of
           Inl e \<Rightarrow> (Inl e, w2)
         | Inr Sigma' \<Rightarrow> (Inr Sigma', print_line (PrintMat Sigma') w2))"

definition covariance_example ::
  "('g, 'c, real printed) world \<Rightarrow> (error + real option) \<times> ('g, 'c, real printed) world" where
  "covariance_example = covariance_cell vec_x vec_y"

definition corrcoef_example ::
  "('g, 'c, real printed) world
     \<Rightarrow> (error + real option list list) \<times> ('g, 'c, real printed) world" where
  "corrcoef_example = corrcoef_cell vec_x vec_y"

definition covariance_matrix_example ::
  "('g, 'c, real printed) world
     \<Rightarrow> (error + real option list list) \<times> ('g, 'c, real printed) world" where
  "covariance_matrix_example = covariance_matrix_cell vec_x vec_y"

section \<open>The R recipe: save and load the final model\<close>

text \<open>
  The third chunk of \<open>save_and_finalize_ml_model_in_R.Rmd\<close>. The packages it loads
  (\<open>caret\<close>, \<open>mlbench\<close>, \<open>randomForest\<close>, \<open>doMC\<close>) and the serialization of the R
  runtime are parameters: the \<open>Sonar\<close> data of \<open>mlbench\<close>, the generator behind
  \<open>set.seed\<close>, the stratified sampling of \<open>createDataPartition\<close>, the training of
  \<open>randomForest\<close>, \<open>predict\<close>, and the pair \<open>serialize\<close>, \<open>unserialize\<close> that
  \<open>saveRDS\<close> and \<open>readRDS\<close> write and read files with. A row of a data frame is its
  numeric columns and its \<open>Class\<close>.
\<close>

type_synonym dataset = "(rat list \<times> string) list"

record ('g, 'm, 'b) r_runtime =
  Sonar :: dataset
  set_seed :: "nat \<Rightarrow> 'g"
  createDataPartition :: "string list \<Rightarrow> rat \<Rightarrow> 'g \<Rightarrow> nat list \<times> 'g"
  randomForest :: "dataset \<Rightarrow> nat \<Rightarrow> nat \<Rightarrow> 'g \<Rightarrow> 'm \<times> 'g"
  predict :: "'m \<Rightarrow> rat list list \<Rightarrow> 'g \<Rightarrow> string list \<times> 'g"
  serialize :: "'m \<Rightarrow> 'b"
  unserialize :: "'b \<Rightarrow> 'm option"

datatype 'm r_printed =
    PrintModel 'm
  | ConfusionMatrix "string list" "string list"

text \<open>
  Row and column selection of a data frame: \<open>d[idx,]\<close> and \<open>d[-idx,]\<close> for row
  numbers counted from one (a number outside \<open>1..nrow\<close>, which
  \<open>createDataPartition\<close> does not return, selects nothing), \<open>d[,1:60]\<close> and
  \<open>d$Class\<close>.
\<close>

definition take_rows :: "dataset \<Rightarrow> nat list \<Rightarrow> dataset" where
  "take_rows d idx = [d ! (i - 1). i \<leftarrow> idx, 1 \<le> i \<and> i \<le> length d]"

definition drop_rows :: "dataset \<Rightarrow> nat list \<Rightarrow> dataset" where
  "drop_rows d idx = [d ! (i - 1). i \<leftarrow> [1..<length d + 1], i \<notin> set idx]"

definition columns_1_60 :: "dataset \<Rightarrow> rat list list" where
  "columns_1_60 d = map (\<lambda>r. take 60 (fst r)) d"

definition Class :: "dataset \<Rightarrow> string list" where
  "Class d = map snd d"

text \<open>
  Modelled from the spec: \<open>saveRDS\<close> and \<open>readRDS\<close> belong to the R runtime, whose
  code is not part of the repository. The recipe says of them "save the model to disk",
  "The model is serialized" and "It can be loaded at a later time by calling readRDS()
  and assigning the object that is loaded"; the specification calls the file "a persisted
  model file format produced and consumed by the R runtime's built-in serialization
  mechanism". So \<open>saveRDS\<close> stores the serialized object under the file's name and
  \<open>readRDS\<close> unserializes what the file of that name holds, and fails when there is
  no such file or its content is not a serialized object.
\<close>

definition saveRDS ::
  "('g, 'm, 'b) r_runtime \<Rightarrow> 'm \<Rightarrow> string \<Rightarrow> ('g, 'b, 'o) world \<Rightarrow> ('g, 'b, 'o) world" where
  "saveRDS R object file w = w\<lparr>files := (files w)(file \<mapsto> serialize R object)\<rparr>"

definition readRDS ::
  "('g, 'm, 'b) r_runtime \<Rightarrow> string \<Rightarrow> ('g, 'b, 'o) world \<Rightarrow> error + 'm" where
  "readRDS R file w =
     (case files w file of
        None \<Rightarrow> Inl FileNotFoundError
      | Some b \<Rightarrow>
          (case unserialize R b of
             None \<Rightarrow> Inl (LibraryError ''unknown input format'')
           | Some object \<Rightarrow> Inr object))"

text \<open>\<open>registerDoMC(cores=n)\<close> of \<open>doMC\<close> registers a parallel backend of \<open>n\<close> workers.\<close>

definition registerDoMC :: "nat \<Rightarrow> ('g, 'c, 'o) world \<Rightarrow> ('g, 'c, 'o) world" where
  "registerDoMC cores w = w\<lparr>workers := Some cores\<rparr>"

record 'm recipe_vars =
  validation_index :: "nat list"
  validation :: dataset
  training :: dataset
  final_model :: 'm
  super_model :: 'm
  final_predictions :: "string list"

text \<open>
  The chunk, statement by statement:
  \<^verbatim>\<open>registerDoMC(cores=8)\<close>;
  \<^verbatim>\<open>data(Sonar)\<close>; \<^verbatim>\<open>set.seed(7)\<close>;
  \<^verbatim>\<open>validation_index <- createDataPartition(Sonar$Class, p=0.80, list=FALSE)\<close>;
  \<^verbatim>\<open>validation <- Sonar[-validation_index,]\<close>;
  \<^verbatim>\<open>training <- Sonar[validation_index,]\<close>;
  \<^verbatim>\<open>set.seed(7)\<close>;
  \<^verbatim>\<open>final_model <- randomForest(Class~., training, mtry=2, ntree=2000)\<close>;
  \<^verbatim>\<open>saveRDS(final_model, "./final_model.rds")\<close>;
  \<^verbatim>\<open>super_model <- readRDS("./final_model.rds")\<close>;
  \<^verbatim>\<open>print(super_model)\<close>;
  \<^verbatim>\<open>final_predictions <- predict(super_model, validation[,1:60])\<close>;
  \<^verbatim>\<open>confusionMatrix(final_predictions, validation$Class)\<close>.
  The chunk marks the point between \<open>saveRDS\<close> and \<open>readRDS\<close> with the comment
  \<open># later...\<close>; \<open>train_and_save\<close> is the part before it, \<open>load_and_predict\<close> the
  part after it.
\<close>

definition train_and_save ::
  "('g, 'm, 'b) r_runtime \<Rightarrow> ('g, 'b, 'm r_printed) world
     \<Rightarrow> (nat list \<times> dataset \<times> dataset \<times> 'm) \<times> ('g, 'b, 'm r_printed) world" where
  "train_and_save R w =
     (let w1 = registerDoMC 8 w;
          w2 = w1\<lparr>rng := set_seed R 7\<rparr>;
          (idx, g1) = createDataPartition R (Class (Sonar R)) (80 / 100) (rng w2);
          w3 = w2\<lparr>rng := g1\<rparr>;
          val = drop_rows (Sonar R) idx;
          trn = take_rows (Sonar R) idx;
          w4 = w3\<lparr>rng := set_seed R 7\<rparr>;
          (fm, g2) = randomForest R trn 2 2000 (rng w4);
          w5 = w4\<lparr>rng := g2\<rparr>
      in ((idx, val, trn, fm), saveRDS R fm ''./final_model.rds'' w5))"

definition load_and_predict ::
  "('g, 'm, 'b) r_runtime \<Rightarrow> nat list \<times> dataset \<times> dataset \<times> 'm
     \<Rightarrow> ('g, 'b, 'm r_printed) world
     \<Rightarrow> (error + 'm recipe_vars) \<times> ('g, 'b, 'm r_printed) world" where
  "load_and_predict R vs w =
     (case vs of (idx, val, trn, fm) \<Rightarrow>
        (case readRDS R ''./final_model.rds'' w of
           Inl e \<Rightarrow> (Inl e, w)
         | Inr sm \<Rightarrow>
             (let w1 = print_line (PrintModel sm) w;
                  (preds, g) = predict R sm (columns_1_60 val) (rng w1);
                  w2 = w1\<lparr>rng := g\<rparr>;
                  w3 = print_line (ConfusionMatrix preds (Class val)) w2
              in (Inr \<lparr>validation_index = idx, validation = val, training = trn,
                        final_model = fm, super_model = sm, final_predictions = preds\<rparr>,
                  w3))))"

definition save_and_load ::
  "('g, 'm, 'b) r_runtime \<Rightarrow> ('g, 'b, 'm r_printed) world
     \<Rightarrow> (error + 'm recipe_vars) \<times> ('g, 'b, 'm r_printed) world" where
  "save_and_load R w = (let (vs, w') = train_and_save R w in load_and_predict R vs w')"

text \<open>
  An R runtime for experiments: four rows stand for \<open>Sonar\<close>, the generator state is a
  number, the partition keeps rows 1, 2 and 4, a model is the number of its training rows,
  it predicts \<open>M\<close> for every row, and a model is serialized as the one-element list of
  itself.
\<close>

definition toy_runtime :: "(nat, nat, nat list) r_runtime" where
  "toy_runtime =
     \<lparr>Sonar = [([1 / 10, 2 / 10], ''R''), ([3 / 10, 1 / 10], ''M''),
               ([2 / 10, 2 / 10], ''M''), ([4 / 10, 0], ''R'')],
      set_seed = (\<lambda>s. s),
      createDataPartition = (\<lambda>y q g. ([1, 2, 4], g + 1)),
      randomForest = (\<lambda>d mtry ntree g. (length d, g + 1)),
      predict = (\<lambda>m d g. (map (\<lambda>r. ''M'') d, g)),
      serialize = (\<lambda>m. [m]),
      unserialize = (\<lambda>b. case b of [m] \<Rightarrow> Some m | _ \<Rightarrow> None)\<rparr>"

text \<open>The same runtime with a reader that accepts no file.\<close>

definition lossy_runtime :: "(nat, nat, nat list) r_runtime" where
  "lossy_runtime = toy_runtime\<lparr>unserialize := (\<lambda>b. None)\<rparr>"

section \<open>The LSTM notebook: training the character-level text generator\<close>

text \<open>
  The full code listing of the section "Develop a Small LSTM Recurrent Neural Network".
  The notebook is Python 2, so the text it reads is a byte string and \<open>lower\<close>
  changes the ASCII capitals only.
\<close>

definition lower :: "string \<Rightarrow> string" where
  "lower s = map (\<lambda>c. if CHR ''A'' \<le> c \<and> c \<le> CHR ''Z''
                        then char_of (of_char c + (32 :: nat)) else c) s"

text \<open>
  \<^verbatim>\<open>chars = sorted(list(set(raw_text)))\<close> and
  \<^verbatim>\<open>char_to_int = dict((c, i) for i, c in enumerate(chars))\<close>.
\<close>

definition chars_of :: "string \<Rightarrow> string" where
  "chars_of raw_text = sort (remdups raw_text)"

definition char_to_int_of :: "string \<Rightarrow> (char \<rightharpoonup> nat)" where
  "char_to_int_of chars = map_of (zip chars [0..<length chars])"

text \<open>\<^verbatim>\<open>[char_to_int[char] for char in seq_in]\<close>: a missing key raises.\<close>

fun encode :: "(char \<rightharpoonup> nat) \<Rightarrow> string \<Rightarrow> error + nat list" where
  "encode m [] = Inr []"
| "encode m (c # cs) =
     (case m c of
        None \<Rightarrow> Inl KeyError
      | Some k \<Rightarrow> (case encode m cs of Inl e \<Rightarrow> Inl e | Inr ks \<Rightarrow> Inr (k # ks)))"

text \<open>
  The loop \<^verbatim>\<open>for i in range(0, n_chars - seq_length, 1)\<close> over the indices that
  are left, with \<open>dataX\<close> and \<open>dataY\<close> as they stand:
  \<^verbatim>\<open>seq_in = raw_text[i:i + seq_length]\<close>,
  \<^verbatim>\<open>seq_out = raw_text[i + seq_length]\<close>,
  \<^verbatim>\<open>dataX.append([char_to_int[char] for char in seq_in])\<close>,
  \<^verbatim>\<open>dataY.append(char_to_int[seq_out])\<close>.
\<close>

fun windows ::
  "(char \<rightharpoonup> nat) \<Rightarrow> string \<Rightarrow> nat \<Rightarrow> nat list \<Rightarrow> nat list list \<times> nat list
     \<Rightarrow> error + nat list list \<times> nat list" where
  "windows m raw_text seq_length [] (dataX, dataY) = Inr (dataX, dataY)"
| "windows m raw_text seq_length (i # rest) (dataX, dataY) =
     (let seq_in = take seq_length (drop i raw_text)
      in if length raw_text \<le> i + seq_length then Inl IndexError
         else let seq_out = raw_text ! (i + seq_length)
              in case encode m seq_in of
                   Inl e \<Rightarrow> Inl e
                 | Inr ks \<Rightarrow>
                     (case m seq_out of
                        None \<Rightarrow> Inl KeyError
                      | Some k \<Rightarrow>
                          windows m raw_text seq_length rest (dataX @ [ks], dataY @ [k])))"

definition fdiv :: "rat \<Rightarrow> rat \<Rightarrow> rat" where
  "fdiv a b = fl (a / b)"

text \<open>
  \<^verbatim>\<open>X = numpy.reshape(dataX, (n_patterns, seq_length, 1))\<close>, which raises unless
  every row has \<open>seq_length\<close> entries, and \<^verbatim>\<open>X = X / float(n_vocab)\<close>. With an
  empty vocabulary there is no entry to divide.
\<close>

definition reshape :: "nat list list \<Rightarrow> nat \<Rightarrow> error + rat list list list" where
  "reshape dataX seq_length =
     (if list_all (\<lambda>row. length row = seq_length) dataX
      then Inr (map (map (\<lambda>k. [of_nat k])) dataX)
      else Inl ValueError)"

definition normalize :: "rat list list list \<Rightarrow> nat \<Rightarrow> rat list list list" where
  "normalize X n_vocab = map (map (map (\<lambda>a. fdiv a (of_nat n_vocab)))) X"

text \<open>
  Modelled from the spec: Keras is not part of the repository. The notebook says of
  \<open>to_categorical\<close>: "Each y value is converted into a sparse vector ... full of zeros
  except with a 1 in the column for the letter (integer) that the pattern represents";
  the number of columns is one more than the largest value, and no value means no
  columns to make (\<open>ValueError\<close>).
\<close>

definition to_categorical :: "nat list \<Rightarrow> error + rat list list" where
  "to_categorical dataY =
     (if dataY = [] then Inl ValueError
      else Inr (map (\<lambda>k. map (\<lambda>j. if j = k then 1 else 0) [0..<Max (set dataY) + 1]) dataY))"

datatype layer =
    LSTM nat "nat \<times> nat"
  | Dropout rat
  | Dense nat string

record 'wt network =
  layers :: "layer list"
  compiled :: "(string \<times> string) option"
  weights :: 'wt

datatype 'wt content =
    Text string
  | Hdf5 'wt

datatype lstm_printed =
    Summary string nat
  | EpochBegin nat nat
  | Improved nat "rat option" rat string
  | NotImproved nat

text \<open>
  The numerics of Keras: the weights a list of layers starts with, and one epoch of
  training, which returns the new weights and the loss of the epoch. Both draw random
  numbers. The loss is taken to be a number.
\<close>

record ('g, 'wt) keras =
  build :: "layer list \<Rightarrow> 'g \<Rightarrow> 'wt \<times> 'g"
  train_epoch ::
    "'wt network \<Rightarrow> rat list list list \<Rightarrow> rat list list \<Rightarrow> nat \<Rightarrow> 'g \<Rightarrow> ('wt \<times> rat) \<times> 'g"

text \<open>
  The name of a checkpoint,
  \<^verbatim>\<open>"weights-improvement-{epoch:02d}-{loss:.4f}.hdf5"\<close>: the epoch in at least
  two digits and the loss rounded to four decimals.
\<close>

fun digits :: "nat \<Rightarrow> string" where
  "digits n = (if n < 10 then [char_of (48 + n)]
               else digits (n div 10) @ [char_of (48 + n mod 10)])"

definition zfill :: "nat \<Rightarrow> string \<Rightarrow> string" where
  "zfill k s = replicate (k - length s) (CHR ''0'') @ s"

definition fixed4 :: "rat \<Rightarrow> string" where
  "fixed4 l =
     (let k = nat (rne (\<bar>l\<bar> * 10 ^ 4))
      in (if l < 0 then ''-'' else '''') @
         digits (k div 10 ^ 4) @ ''.'' @ zfill 4 (digits (k mod 10 ^ 4)))"

definition filepath :: "nat \<Rightarrow> rat \<Rightarrow> string" where
  "filepath epoch loss =
     ''weights-improvement-'' @ zfill 2 (digits epoch) @ ''-'' @ fixed4 loss @ ''.hdf5''"

text \<open>
  Modelled from the spec: \<open>ModelCheckpoint\<close> and \<open>fit\<close> are Keras code. The
  notebook configures the callback with \<open>monitor='loss'\<close>, \<open>verbose=1\<close>,
  \<open>save_best_only=True\<close>, \<open>mode='min'\<close> and says it will "record all of the network
  weights to file each time an improvement in loss is observed at the end of the epoch";
  the recorded run starts with "Epoch 00001: loss improved from inf to 3.04926, saving
  model to weights-improvement-01-3.0493.hdf5". So the callback remembers the best loss
  so far, none before the first epoch, and at the end of an epoch whose loss is better it
  writes the weights to the file the pattern names for that epoch and loss. The
  specification lists these "checkpoint files produced by the ML library's built-in
  checkpoint callback" among the visible artifacts.
\<close>

record model_checkpoint =
  monitor :: string
  verbose :: nat
  save_best_only :: bool
  mode :: string
  best :: "rat option"

definition ModelCheckpoint :: "string \<Rightarrow> nat \<Rightarrow> bool \<Rightarrow> string \<Rightarrow> model_checkpoint" where
  "ModelCheckpoint mon v sbo md =
     \<lparr>monitor = mon, verbose = v, save_best_only = sbo, mode = md, best = None\<rparr>"

definition improves :: "string \<Rightarrow> rat \<Rightarrow> rat option \<Rightarrow> bool" where
  "improves md l b =
     (case b of None \<Rightarrow> True | Some b' \<Rightarrow> if md = ''max'' then b' < l else l < b')"

definition save_weights ::
  "'wt network \<Rightarrow> string \<Rightarrow> ('g, 'wt content, 'o) world \<Rightarrow> ('g, 'wt content, 'o) world" where
  "save_weights net file w = w\<lparr>files := (files w)(file \<mapsto> Hdf5 (weights net))\<rparr>"

definition on_epoch_end ::
  "model_checkpoint \<Rightarrow> nat \<Rightarrow> rat \<Rightarrow> 'wt network \<Rightarrow> ('g, 'wt content, lstm_printed) world
     \<Rightarrow> model_checkpoint \<times> ('g, 'wt content, lstm_printed) world" where
  "on_epoch_end cb epoch l net w =
     (if monitor cb \<noteq> ''loss'' then (cb, w)
      else if save_best_only cb then
        (if improves (mode cb) l (best cb)
         then (cb\<lparr>best := Some l\<rparr>,
               save_weights net (filepath epoch l)
                 (if 0 < verbose cb
                  then print_line (Improved epoch (best cb) l (filepath epoch l)) w else w))
         else (cb, if 0 < verbose cb then print_line (NotImproved epoch) w else w))
      else (cb, save_weights net (filepath epoch l) w))"

fun run_callbacks ::
  "model_checkpoint list \<Rightarrow> nat \<Rightarrow> rat \<Rightarrow> 'wt network \<Rightarrow> ('g, 'wt content, lstm_printed) world
     \<Rightarrow> model_checkpoint list \<times> ('g, 'wt content, lstm_printed) world" where
  "run_callbacks [] epoch l net w = ([], w)"
| "run_callbacks (cb # cbs) epoch l net w =
     (let (cb', w1) = on_epoch_end cb epoch l net w;
          (cbs', w2) = run_callbacks cbs epoch l net w1
      in (cb' # cbs', w2))"

text \<open>
  \<^verbatim>\<open>model.fit(X, y, epochs=..., batch_size=..., callbacks=...)\<close>: the epochs that
  are left, in order; each trains, then runs the callbacks.
\<close>

fun fit_epochs ::
  "('g, 'wt) keras \<Rightarrow> rat list list list \<Rightarrow> rat list list \<Rightarrow> nat \<Rightarrow> nat \<Rightarrow> nat list
     \<Rightarrow> 'wt network \<times> model_checkpoint list \<times> ('g, 'wt content, lstm_printed) world
     \<Rightarrow> 'wt network \<times> model_checkpoint list \<times> ('g, 'wt content, lstm_printed) world" where
  "fit_epochs K X y epochs batch_size [] s = s"
| "fit_epochs K X y epochs batch_size (e # es) (net, cbs, w) =
     (let w1 = print_line (EpochBegin e epochs) w;
          ((wt, l), g) = train_epoch K net X y batch_size (rng w1);
          net' = net\<lparr>weights := wt\<rparr>;
          (cbs', w2) = run_callbacks cbs e l net' (w1\<lparr>rng := g\<rparr>)
      in fit_epochs K X y epochs batch_size es (net', cbs', w2))"

definition fit ::
  "('g, 'wt) keras \<Rightarrow> 'wt network \<Rightarrow> rat list list list \<Rightarrow> rat list list \<Rightarrow> nat \<Rightarrow> nat
     \<Rightarrow> model_checkpoint list \<Rightarrow> ('g, 'wt content, lstm_printed) world
     \<Rightarrow> 'wt network \<times> model_checkpoint list \<times> ('g, 'wt content, lstm_printed) world" where
  "fit K net X y epochs batch_size callbacks w =
     fit_epochs K X y epochs batch_size [1..<epochs + 1] (net, callbacks, w)"

record 'wt training_vars =
  raw_text :: string
  chars :: string
  n_chars :: nat
  n_vocab :: nat
  dataX :: "nat list list"
  dataY :: "nat list"
  n_patterns :: nat
  model :: "'wt network"

text \<open>
  The script. \<open>open(filename).read()\<close> raises when the file is missing (or is not
  text); the model is \<open>Sequential()\<close> with the layers
  \<^verbatim>\<open>LSTM(256, input_shape=(X.shape[1], X.shape[2]))\<close>, \<^verbatim>\<open>Dropout(0.2)\<close>,
  \<^verbatim>\<open>Dense(y.shape[1], activation='softmax')\<close>, compiled with
  \<^verbatim>\<open>loss='categorical_crossentropy', optimizer='adam'\<close>; then
  \<^verbatim>\<open>checkpoint = ModelCheckpoint(filepath, monitor='loss', verbose=1, save_best_only=True, mode='min')\<close>,
  \<^verbatim>\<open>callbacks_list = [checkpoint]\<close> and
  \<^verbatim>\<open>model.fit(X, y, epochs=20, batch_size=128, callbacks=callbacks_list)\<close>.
\<close>

definition train_text_generator ::
  "('g, 'wt) keras \<Rightarrow> ('g, 'wt content, lstm_printed) world
     \<Rightarrow> (error + 'wt training_vars) \<times> ('g, 'wt content, lstm_printed) world" where
  "train_text_generator K w =
     (case files w ''wonderland.txt'' of
        None \<Rightarrow> (Inl FileNotFoundError, w)
      | Some (Hdf5 wt) \<Rightarrow> (Inl (LibraryError ''not a text file''), w)
      | Some (Text t) \<Rightarrow>
          (let txt = lower t;
               cs = chars_of txt;
               char_to_int = char_to_int_of cs;
               nc = length txt;
               nv = length cs;
               w1 = print_line (Summary ''Total Characters: '' nc) w;
               w2 = print_line (Summary ''Total Vocab: '' nv) w1;
               seq_length = 100
           in case windows char_to_int txt seq_length [0..<nc - seq_length] ([], []) of
                Inl e \<Rightarrow> (Inl e, w2)
              | Inr (dX, dY) \<Rightarrow>
                  (let np = length dX;
                       w3 = print_line (Summary ''Total Patterns: '' np) w2
                   in case reshape dX seq_length of
                        Inl e \<Rightarrow> (Inl e, w3)
                      | Inr X0 \<Rightarrow>
                          (let X = normalize X0 nv
                           in case to_categorical dY of
                                Inl e \<Rightarrow> (Inl e, w3)
                              | Inr y \<Rightarrow>
                                  (let ls = [LSTM 256 (seq_length, 1), Dropout (fl (2 / 10)),
                                             Dense (length (hd y)) ''softmax''];
                                       (wt, g) = build K ls (rng w3);
                                       net = \<lparr>layers = ls,
                                              compiled = Some (''categorical_crossentropy'', ''adam''),
                                              weights = wt\<rparr>;
                                       checkpoint = ModelCheckpoint ''loss'' 1 True ''min'';
                                       callbacks_list = [checkpoint];
                                       (net', cbs, w4) =
                                         fit K net X y 20 128 callbacks_list (w3\<lparr>rng := g\<rparr>)
                                   in (Inr \<lparr>raw_text = txt, chars = cs, n_chars = nc,
                                             n_vocab = nv, dataX = dX, dataY = dY,
                                             n_patterns = np, model = net'\<rparr>,
                                       w4))))))"

text \<open>
  A Keras for experiments: the weights are the number of epochs trained, and the loss of
  an epoch is the one the notebook recorded for it,
  \<open>3.04926, 2.80962, 2.72321, ...\<close>.
\<close>

definition recorded_losses :: "rat list" where
  "recorded_losses =
     [304926 / 100000, 280962 / 100000, 272321 / 100000, 264039 / 100000, 257397 / 100000,
      252051 / 100000, 246791 / 100000, 242076 / 100000, 238405 / 100000, 234600 / 100000,
      230860 / 100000, 227094 / 100000, 224030 / 100000, 220742 / 100000, 217591 / 100000,
      215015 / 100000, 212439 / 100000, 209713 / 100000, 207430 / 100000, 205181 / 100000]"

definition recorded_keras :: "(nat, nat) keras" where
  "recorded_keras =
     \<lparr>build = (\<lambda>ls g. (0, g)),
      train_epoch = (\<lambda>net X y b g. ((weights net + 1, fl (recorded_losses ! weights net)), g))\<rparr>"

text \<open>A working directory that holds a text of 104 characters as \<open>wonderland.txt\<close>.\<close>

definition short_text :: string where
  "short_text = ''Alice was beginning to get very tired of sitting by her sister on the bank, and of having nothing to do:''"

definition wonderland :: "(nat, nat content, lstm_printed) world" where
  "wonderland = empty_world\<lparr>files := [''wonderland.txt'' \<mapsto> Text short_text]\<rparr>"

section \<open>Rounding to binary64: monotone, idempotent, within half an ulp\<close>

lemma pow2_int_nat: "0 \<le> k \<Longrightarrow> (2::rat) powi k = 2 ^ nat k"
  by (simp add: power_int_def)

lemma bitlen_powi_bounds:
  assumes "0 < k"
  shows "(2::rat) powi (bitlen k - 1) \<le> of_int k" and "of_int k < (2::rat) powi (bitlen k)"
proof -
  from assms have b: "1 \<le> bitlen k"
    using bitlen_eq_zero_iff [of k] bitlen_nonneg [of k] by linarith
  have "2 ^ nat (bitlen k - 1) \<le> k" "k < 2 ^ nat (bitlen k)"
    using bitlen_bounds [OF assms] by auto
  then have "(of_int (2 ^ nat (bitlen k - 1)) :: rat) \<le> of_int k"
       "(of_int k :: rat) < of_int (2 ^ nat (bitlen k))"
    by (simp_all only: of_int_le_iff of_int_less_iff)
  then show "(2::rat) powi (bitlen k - 1) \<le> of_int k" "of_int k < (2::rat) powi (bitlen k)"
    using b by (simp_all add: pow2_int_nat)
qed

lemma expo_bounds:
  assumes "x \<noteq> 0"
  shows "2 powi (expo x) \<le> \<bar>x\<bar>" and "\<bar>x\<bar> < 2 powi (expo x + 1)"
proof -
  obtain p q where pq: "quotient_of \<bar>x\<bar> = (p, q)" by (cases "quotient_of \<bar>x\<bar>")
  then have q: "0 < q" and x: "\<bar>x\<bar> = of_int p / of_int q"
    by (auto dest: quotient_of_denom_pos quotient_of_div)
  from assms have "0 < \<bar>x\<bar>" by simp
  with x q have p: "0 < p" by (simp add: zero_less_divide_iff)
  define d where "d = bitlen p - bitlen q"
  have Q: "(0::rat) < of_int q" using q by simp
  note bp = bitlen_powi_bounds [OF p] and bq = bitlen_powi_bounds [OF q]
  have split1: "(2::rat) powi (bitlen p) = 2 powi (d + 1) * 2 powi (bitlen q - 1)"
    by (simp add: d_def flip: power_int_add)
  have split2: "(2::rat) powi (bitlen p - 1) = 2 powi (d - 1) * 2 powi (bitlen q)"
    by (simp add: d_def flip: power_int_add)
  have up: "of_int p < (2::rat) powi (d + 1) * of_int q"
  proof -
    have "2 powi (d + 1) * 2 powi (bitlen q - 1) \<le> (2::rat) powi (d + 1) * of_int q"
      using bq(1) by (intro mult_left_mono) auto
    with bp(2) split1 show ?thesis by linarith
  qed
  have lo: "(2::rat) powi (d - 1) * of_int q < of_int p"
  proof -
    have "(2::rat) powi (d - 1) * of_int q < 2 powi (d - 1) * 2 powi (bitlen q)"
      using bq(2) by (intro mult_strict_left_mono) auto
    with bp(1) split2 show ?thesis by linarith
  qed
  show "2 powi (expo x) \<le> \<bar>x\<bar>"
  proof (cases "2 powi d * of_int q \<le> (of_int p :: rat)")
    case True
    then have "expo x = d" by (simp add: expo_def pq d_def)
    with True Q show ?thesis by (simp add: x pos_le_divide_eq)
  next
    case False
    then have "expo x = d - 1" by (simp add: expo_def pq d_def)
    with lo Q show ?thesis by (simp add: x pos_le_divide_eq)
  qed
  show "\<bar>x\<bar> < 2 powi (expo x + 1)"
  proof (cases "2 powi d * of_int q \<le> (of_int p :: rat)")
    case True
    then have "expo x = d" by (simp add: expo_def pq d_def)
    with up Q show ?thesis by (simp add: x pos_divide_less_eq)
  next
    case False
    then have "expo x = d - 1" by (simp add: expo_def pq d_def)
    with False Q show ?thesis by (simp add: x pos_divide_less_eq)
  qed
qed

lemma expo_unique:
  assumes "2 powi e \<le> \<bar>x\<bar>" and "\<bar>x\<bar> < 2 powi (e + 1)"
  shows "expo x = e"
proof -
  have "(0::rat) < 2 powi e" by simp
  with assms(1) have "0 < \<bar>x\<bar>" by linarith
  then have nz: "x \<noteq> 0" by simp
  note b = expo_bounds [OF nz]
  have "(2::rat) powi e < 2 powi (expo x + 1)" using assms(1) b(2) by linarith
  then have 1: "e < expo x + 1"
    by (metis (no_types) not_less power_int_increasing one_le_numeral linorder_not_le)
  have "(2::rat) powi (expo x) < 2 powi (e + 1)" using assms(2) b(1) by linarith
  then have 2: "expo x < e + 1"
    by (metis (no_types) not_less power_int_increasing one_le_numeral linorder_not_le)
  from 1 2 show ?thesis by linarith
qed

lemma pow2_shift: "a = e + int n \<Longrightarrow> (2::rat) powi a = 2 ^ n * 2 powi e"
  by (simp add: power_int_add mult.commute)

lemma pow2_less_imp:
  assumes "(2::rat) powi a < 2 powi b"
  shows "a < b"
proof (rule ccontr)
  assume "\<not> a < b"
  then have "b \<le> a" by simp
  then have "(2::rat) powi b \<le> 2 powi a" by (intro power_int_increasing) simp_all
  with assms show False by simp
qed

lemma rne_of_int: "rne (of_int k) = k"
  by (simp add: rne_def)

lemma rne_lower: "\<lfloor>t\<rfloor> \<le> rne t"
  by (simp add: rne_def Let_def)

lemma rne_upper: "rne t \<le> \<lfloor>t\<rfloor> + 1"
  by (simp add: rne_def Let_def)

lemma rne_error: "\<bar>of_int (rne t) - t\<bar> \<le> 1 / 2"
proof -
  have "of_int \<lfloor>t\<rfloor> \<le> t" "t < of_int \<lfloor>t\<rfloor> + 1" by linarith+
  then show ?thesis by (auto simp: rne_def Let_def)
qed

lemma rne_mono:
  assumes "s \<le> t"
  shows "rne s \<le> rne t"
proof (cases "\<lfloor>s\<rfloor> = \<lfloor>t\<rfloor>")
  case True
  with assms show ?thesis by (auto simp: rne_def Let_def)
next
  case False
  with assms have "\<lfloor>s\<rfloor> + 1 \<le> \<lfloor>t\<rfloor>" using floor_mono [OF assms] by linarith
  with rne_upper [of s] rne_lower [of t] show ?thesis by linarith
qed

lemma ulp_pos: "0 < ulp x"
  by (simp add: ulp_def)

lemma scaled_range:
  assumes "2 powi e \<le> (x::rat)" "x < 2 powi (e + 1)"
  shows "2 ^ 52 \<le> x / 2 powi (e - 52)" and "x / 2 powi (e - 52) < 2 ^ 53"
proof -
  have a: "(2::rat) powi e = 2 ^ 52 * 2 powi (e - 52)"
    by (rule pow2_shift) simp
  have b: "(2::rat) powi (e + 1) = 2 ^ 53 * 2 powi (e - 52)"
    by (rule pow2_shift) simp
  have p: "(0::rat) < 2 powi (e - 52)" by simp
  show "2 ^ 52 \<le> x / 2 powi (e - 52)"
    using assms(1) p unfolding a by (simp add: pos_le_divide_eq)
  show "x / 2 powi (e - 52) < 2 ^ 53"
    using assms(2) p unfolding b by (simp add: pos_divide_less_eq)
qed

lemma fl_binade:
  assumes "2 powi e \<le> x" "x < 2 powi (e + 1)"
  shows "fl x = of_int (rne (x / 2 powi (e - 52))) * 2 powi (e - 52)"
proof -
  have "(0::rat) < 2 powi e" by simp
  with assms(1) have pos: "0 < x" by linarith
  then have "expo x = e" using assms by (intro expo_unique) simp_all
  with pos show ?thesis by (simp add: fl_def ulp_def)
qed

lemma rne_scaled_range:
  assumes "2 powi e \<le> x" "x < 2 powi (e + 1)"
  shows "2 ^ 52 \<le> rne (x / 2 powi (e - 52))" and "rne (x / 2 powi (e - 52)) \<le> 2 ^ 53"
proof -
  note r = scaled_range [OF assms]
  have "rne (of_int (2 ^ 52)) \<le> rne (x / 2 powi (e - 52))"
    using r(1) by (intro rne_mono) simp
  then show "2 ^ 52 \<le> rne (x / 2 powi (e - 52))" by (simp only: rne_of_int)
  have "rne (x / 2 powi (e - 52)) \<le> rne (of_int (2 ^ 53))"
    using r(2) by (intro rne_mono) simp
  then show "rne (x / 2 powi (e - 52)) \<le> 2 ^ 53" by (simp only: rne_of_int)
qed

lemma fl_binade_bounds:
  assumes "2 powi e \<le> x" "x < 2 powi (e + 1)"
  shows "2 powi e \<le> fl x" and "fl x \<le> 2 powi (e + 1)"
proof -
  have a: "(2::rat) powi e = 2 ^ 52 * 2 powi (e - 52)"
    by (rule pow2_shift) simp
  have b: "(2::rat) powi (e + 1) = 2 ^ 53 * 2 powi (e - 52)"
    by (rule pow2_shift) simp
  have p: "(0::rat) \<le> 2 powi (e - 52)" by simp
  note r = rne_scaled_range [OF assms]
  have "(of_int (2 ^ 52) :: rat) \<le> of_int (rne (x / 2 powi (e - 52)))"
    using r(1) by (simp only: of_int_le_iff)
  then have "2 ^ 52 * 2 powi (e - 52) \<le> of_int (rne (x / 2 powi (e - 52))) * (2::rat) powi (e - 52)"
    using p by (intro mult_right_mono) simp_all
  then show "2 powi e \<le> fl x" by (simp only: a fl_binade [OF assms])
  have "(of_int (rne (x / 2 powi (e - 52))) :: rat) \<le> of_int (2 ^ 53)"
    using r(2) by (simp only: of_int_le_iff)
  then have "of_int (rne (x / 2 powi (e - 52))) * (2::rat) powi (e - 52) \<le> 2 ^ 53 * 2 powi (e - 52)"
    using p by (intro mult_right_mono) simp_all
  then show "fl x \<le> 2 powi (e + 1)" by (simp only: b fl_binade [OF assms])
qed

lemma expo_pos_bounds:
  assumes "0 < x"
  shows "2 powi (expo x) \<le> x" and "x < 2 powi (expo x + 1)"
  using expo_bounds [of x] assms by simp_all

lemma fl_mono_pos:
  assumes "0 < x" "x \<le> y"
  shows "fl x \<le> fl y"
proof -
  from assms have y: "0 < y" by linarith
  note bx = expo_pos_bounds [OF assms(1)] and cy = expo_pos_bounds [OF y]
  have "(2::rat) powi (expo x) < 2 powi (expo y + 1)" using bx(1) cy(2) assms(2) by linarith
  then have le: "expo x \<le> expo y"
    using pow2_less_imp by fastforce
  show ?thesis
  proof (cases "expo x = expo y")
    case True
    have "rne (x / 2 powi (expo y - 52)) \<le> rne (y / 2 powi (expo y - 52))"
      using assms(2) by (intro rne_mono divide_right_mono) simp_all
    then have "(of_int (rne (x / 2 powi (expo y - 52))) :: rat) \<le> of_int (rne (y / 2 powi (expo y - 52)))"
      by (simp only: of_int_le_iff)
    then have "of_int (rne (x / 2 powi (expo y - 52))) * (2::rat) powi (expo y - 52)
        \<le> of_int (rne (y / 2 powi (expo y - 52))) * 2 powi (expo y - 52)"
      by (intro mult_right_mono) simp_all
    then show ?thesis
      using fl_binade [OF bx] fl_binade [OF cy] True by simp
  next
    case False
    with le have "expo x + 1 \<le> expo y" by linarith
    then have "(2::rat) powi (expo x + 1) \<le> 2 powi (expo y)"
      by (intro power_int_increasing) simp_all
    with fl_binade_bounds(2) [OF bx] fl_binade_bounds(1) [OF cy] show ?thesis by linarith
  qed
qed

lemma fl_zero: "fl 0 = 0"
  by (simp add: fl_def)

lemma fl_nonneg: "0 \<le> x \<Longrightarrow> 0 \<le> fl x"
proof (cases "x = 0")
  case True then show ?thesis by (simp add: fl_zero)
next
  case False
  assume "0 \<le> x"
  with False have p: "0 < x" by simp
  have "(0::rat) < 2 powi (expo x)" by simp
  with fl_binade_bounds(1) [OF expo_pos_bounds [OF p]] show ?thesis by linarith
qed

lemma fl_mono:
  assumes "0 \<le> x" "x \<le> y"
  shows "fl x \<le> fl y"
proof (cases "x = 0")
  case True
  with assms fl_nonneg [of y] show ?thesis by (simp add: fl_zero)
next
  case False
  with assms show ?thesis by (intro fl_mono_pos) simp_all
qed

lemma fl_error:
  assumes "2 powi e \<le> x" "x < 2 powi (e + 1)"
  shows "\<bar>fl x - x\<bar> \<le> 2 powi (e - 53)"
proof -
  define u where "u = (2::rat) powi (e - 52)"
  have u: "0 < u" by (simp add: u_def)
  have h: "(2::rat) powi (e - 53) = u / 2"
    using pow2_shift [of "e - 52" "e - 53" 1] by (simp add: u_def)
  have "fl x - x = (of_int (rne (x / u)) - x / u) * u"
    using u by (simp add: fl_binade [OF assms] u_def [symmetric] algebra_simps)
  then have "\<bar>fl x - x\<bar> = \<bar>of_int (rne (x / u)) - x / u\<bar> * u"
    using u by (simp add: abs_mult)
  also have "\<dots> \<le> 1 / 2 * u"
    using u rne_error [of "x / u"] by (intro mult_right_mono) simp_all
  finally show ?thesis by (simp add: h)
qed

lemma fl_idem_pos:
  assumes "0 < x"
  shows "fl (fl x) = fl x"
proof -
  define e where "e = expo x"
  note bx = expo_pos_bounds [OF assms, folded e_def]
  define m where "m = rne (x / 2 powi (e - 52))"
  have fx: "fl x = of_int m * 2 powi (e - 52)"
    using fl_binade [OF bx] by (simp add: m_def)
  note r = rne_scaled_range [OF bx, folded m_def]
  have a: "(2::rat) powi e = 2 ^ 52 * 2 powi (e - 52)"
    by (rule pow2_shift) simp
  have b: "(2::rat) powi (e + 1) = 2 ^ 53 * 2 powi (e - 52)"
    by (rule pow2_shift) simp
  have c: "(2::rat) powi (e + 2) = 2 ^ 54 * 2 powi (e - 52)"
    by (rule pow2_shift) simp
  have c': "(2::rat) powi (e - 51) = 2 * 2 powi (e - 52)"
    using pow2_shift [of "e - 51" "e - 52" 1] by simp
  show ?thesis
  proof (cases "m = 2 ^ 53")
    case True
    then have v: "fl x = 2 powi (e + 1)" by (simp add: fx b)
    have "fl (2 powi (e + 1)) = of_int (rne ((2::rat) powi (e + 1) / 2 powi (e + 1 - 52))) * 2 powi (e + 1 - 52)"
      by (intro fl_binade) (simp_all add: power_int_strict_increasing)
    also have "(2::rat) powi (e + 1) / 2 powi (e + 1 - 52) = of_int (2 ^ 52)"
      by (simp add: b c')
    finally show ?thesis unfolding v by (simp only: rne_of_int) (simp add: b c')
  next
    case False
    with r(2) have lt: "m < 2 ^ 53" by linarith
    have lo: "2 powi e \<le> fl x" using fl_binade_bounds(1) [OF bx] .
    have "(of_int m :: rat) < of_int (2 ^ 53)" using lt by (simp only: of_int_less_iff)
    then have "of_int m * (2::rat) powi (e - 52) < 2 ^ 53 * 2 powi (e - 52)"
      by (intro mult_strict_right_mono) simp_all
    then have hi: "fl x < 2 powi (e + 1)" by (simp only: fx b)
    have "fl (fl x) = of_int (rne (fl x / 2 powi (e - 52))) * 2 powi (e - 52)"
      using lo hi by (rule fl_binade)
    also have "fl x / 2 powi (e - 52) = of_int m" by (simp add: fx)
    finally show ?thesis by (simp only: rne_of_int fx)
  qed
qed

lemma fl_idem: "0 \<le> x \<Longrightarrow> fl (fl x) = fl x"
  by (cases "x = 0") (simp_all add: fl_zero fl_idem_pos)

lemma double_lt_one:
  assumes "fl x = x" "0 \<le> x" "x < 1"
  shows "x \<le> 1 - 1 / 2 ^ 53"
proof (cases "x = 0")
  case True then show ?thesis by simp
next
  case False
  with assms have pos: "0 < x" by simp
  define e where "e = expo x"
  note bx = expo_pos_bounds [OF pos, folded e_def]
  have "(2::rat) powi e < 2 powi 0" using bx(1) assms(3) by simp
  then have e: "e < 0" by (rule pow2_less_imp)
  show ?thesis
  proof (cases "e = -1")
    case True
    define m where "m = rne (x / 2 powi (e - 52))"
    have "fl x = of_int m * 2 powi (e - 52)"
      using fl_binade [OF bx] by (simp add: m_def)
    with assms(1) True have x: "x = of_int m / 2 ^ 53"
      by (simp add: power_int_minus field_simps)
    with assms(3) have "(of_int m :: rat) < of_int (2 ^ 53)" by (simp add: field_simps)
    then have "m < 2 ^ 53" by (simp only: of_int_less_iff)
    then have "m \<le> 2 ^ 53 - 1" by simp
    then have "(of_int m :: rat) \<le> of_int (2 ^ 53 - 1)" by (simp only: of_int_le_iff)
    then show ?thesis unfolding x by (simp add: field_simps)
  next
    case False
    with e have "e + 1 \<le> -1" by simp
    then have "(2::rat) powi (e + 1) \<le> 2 powi (-1)" by (intro power_int_increasing) simp_all
    with bx(2) have "x < 1 / 2" by (simp add: power_int_minus)
    then show ?thesis by simp
  qed
qed

lemma fl_error_32:
  assumes "0 \<le> x" "x < 32"
  shows "fl x \<le> x + 1 / 2 ^ 49"
proof (cases "x = 0")
  case True then show ?thesis by (simp add: fl_zero)
next
  case False
  with assms have pos: "0 < x" by simp
  define e where "e = expo x"
  note bx = expo_pos_bounds [OF pos, folded e_def]
  have "(2::rat) powi e < 2 powi 5" using bx(1) assms(2) by simp
  then have "e < 5" by (rule pow2_less_imp)
  then have "e - 53 \<le> -49" by simp
  then have "(2::rat) powi (e - 53) \<le> 2 powi (-49)" by (intro power_int_increasing) simp_all
  then have "(2::rat) powi (e - 53) \<le> 1 / 2 ^ 49" by (simp add: power_int_minus field_simps)
  with fl_error [OF bx] show ?thesis by linarith
qed

section \<open>The test dataset of the rank correlation notebook\<close>

lemma fl_20_below: "fl (20 - 20 / 2 ^ 53) = 20 - 1 / 2 ^ 48"
  by code_simp

lemma fl_10_below: "fl (10 - 10 / 2 ^ 53) = 10 - 1 / 2 ^ 49"
  by code_simp

lemma fl_10: "fl 10 = 10"
  by code_simp

lemma scaled_20:
  assumes "is_double u" "0 \<le> u" "u < 1"
  shows "0 \<le> fmul u 20" and "fmul u 20 \<le> 20 - 1 / 2 ^ 48" and "fl (fmul u 20) = fmul u 20"
proof -
  have u: "u \<le> 1 - 1 / 2 ^ 53"
    using assms by (intro double_lt_one) (simp_all add: is_double_def)
  show "0 \<le> fmul u 20" using assms(2) by (simp add: fmul_def fl_nonneg)
  have "fl (u * 20) \<le> fl (20 - 20 / 2 ^ 53)"
    using assms(2) u by (intro fl_mono) simp_all
  then show "fmul u 20 \<le> 20 - 1 / 2 ^ 48" by (simp only: fmul_def fl_20_below)
  show "fl (fmul u 20) = fmul u 20" using assms(2) by (simp add: fmul_def fl_idem)
qed

lemma scaled_10:
  assumes "is_double v" "0 \<le> v" "v < 1"
  shows "0 \<le> fmul v 10" and "fmul v 10 \<le> 10 - 1 / 2 ^ 49"
proof -
  have v: "v \<le> 1 - 1 / 2 ^ 53"
    using assms by (intro double_lt_one) (simp_all add: is_double_def)
  show "0 \<le> fmul v 10" using assms(2) by (simp add: fmul_def fl_nonneg)
  have "fl (v * 10) \<le> fl (10 - 10 / 2 ^ 53)"
    using assms(2) v by (intro fl_mono) simp_all
  then show "fmul v 10 \<le> 10 - 1 / 2 ^ 49" by (simp only: fmul_def fl_10_below)
qed

lemma sum_bounds:
  assumes "0 \<le> a" "a \<le> 20 - 1 / 2 ^ 48" "fl a = a" "0 \<le> b" "b \<le> 10 - 1 / 2 ^ 49"
  shows "a \<le> fadd a b" and "fadd a b \<le> a + 10"
proof -
  have "fl a \<le> fl (a + b)" using assms(1,4) by (intro fl_mono) simp_all
  then show "a \<le> fadd a b" by (simp add: fadd_def assms(3))
  have "fl (a + b) \<le> a + b + 1 / 2 ^ 49"
    using assms by (intro fl_error_32) simp_all
  with assms(5) show "fadd a b \<le> a + 10" by (simp add: fadd_def)
qed

lemma diff_bounds:
  assumes "a \<le> s" "s \<le> a + 10"
  shows "0 \<le> fsub s a" and "fsub s a \<le> 10"
proof -
  show "0 \<le> fsub s a" using assms(1) by (simp add: fsub_def fl_nonneg)
  have "fl (s - a) \<le> fl 10" using assms by (intro fl_mono) simp_all
  then show "fsub s a \<le> 10" by (simp add: fsub_def fl_10)
qed

lemma prepare_data_eq:
  assumes "uniform_doubles np"
  shows "fst (prepare_data np g) =
           Inr (np_scale (fst (rand np 1000 g)) 20,
                map2 fadd (np_scale (fst (rand np 1000 g)) 20)
                          (np_scale (fst (rand np 1000 (snd (rand np 1000 g)))) 10))"
proof -
  from assms have "length (fst (rand np 1000 g)) = 1000"
    "length (fst (rand np 1000 (snd (rand np 1000 g)))) = 1000"
    unfolding uniform_doubles_def by blast+
  then show ?thesis
    by (simp add: prepare_data_def np_add_def np_scale_def split_beta Let_def)
qed

text \<open>
  C9, as amended. In the test dataset \<open>data1 = rand(1000) * 20\<close>,
  \<open>data2 = data1 + rand(1000) * 10\<close>, whatever binary64 numbers in \<open>[0, 1)\<close>
  the generator yields, every index \<open>i\<close> has \<open>0 \<le> data1[i] < 20\<close> and
  \<open>0 \<le> data2[i] - data1[i] \<le> 10\<close>, so \<open>data2\<close> dominates \<open>data1\<close> pointwise. The
  difference is bounded by 10 inclusive, whether it is taken exactly or as the rounded
  subtraction of the two stored numbers: the sum \<open>data1[i] + rand * 10\<close> is rounded and
  can reach \<open>data1[i] + 10\<close>.
\<close>

theorem data_bounds:
  assumes "uniform_doubles np"
  shows "\<exists>d1 d2. fst (prepare_data np g) = Inr (d1, d2) \<and>
           length d1 = 1000 \<and> length d2 = 1000 \<and>
           (\<forall>i<1000. 0 \<le> d1 ! i \<and> d1 ! i < 20 \<and>
                      d1 ! i \<le> d2 ! i \<and> d2 ! i - d1 ! i \<le> 10 \<and>
                      0 \<le> fsub (d2 ! i) (d1 ! i) \<and> fsub (d2 ! i) (d1 ! i) \<le> 10)"
proof -
  define u where "u = fst (rand np 1000 g)"
  define v where "v = fst (rand np 1000 (snd (rand np 1000 g)))"
  define d1 where "d1 = np_scale u 20"
  define d2 where "d2 = map2 fadd d1 (np_scale v 10)"
  from assms have lu: "length u = 1000" and lv: "length v = 1000"
    and ru: "\<And>a. a \<in> set u \<Longrightarrow> is_double a \<and> 0 \<le> a \<and> a < 1"
    and rv: "\<And>b. b \<in> set v \<Longrightarrow> is_double b \<and> 0 \<le> b \<and> b < 1"
    unfolding uniform_doubles_def u_def v_def by blast+
  have eq: "fst (prepare_data np g) = Inr (d1, d2)"
    using prepare_data_eq [OF assms, of g] by (simp add: d1_def d2_def u_def v_def)
  have l1: "length d1 = 1000" and l2: "length d2 = 1000"
    using lu lv by (simp_all add: d1_def d2_def np_scale_def)
  have "0 \<le> d1 ! i \<and> d1 ! i < 20 \<and> d1 ! i \<le> d2 ! i \<and> d2 ! i - d1 ! i \<le> 10 \<and>
        0 \<le> fsub (d2 ! i) (d1 ! i) \<and> fsub (d2 ! i) (d1 ! i) \<le> 10" if i: "i < 1000" for i
  proof -
    from i lu lv have ui: "u ! i \<in> set u" and vi: "v ! i \<in> set v" by simp_all
    have a: "d1 ! i = fmul (u ! i) 20" using i lu by (simp add: d1_def np_scale_def)
    have s: "d2 ! i = fadd (d1 ! i) (fmul (v ! i) 10)"
      using i lu lv by (simp add: d2_def d1_def np_scale_def)
    note A = scaled_20 [of "u ! i"] and B = scaled_10 [of "v ! i"]
    have A1: "0 \<le> d1 ! i" and A2: "d1 ! i \<le> 20 - 1 / 2 ^ 48" and A3: "fl (d1 ! i) = d1 ! i"
      using A ru [OF ui] by (simp_all add: a)
    have B1: "0 \<le> fmul (v ! i) 10" and B2: "fmul (v ! i) 10 \<le> 10 - 1 / 2 ^ 49"
      using B rv [OF vi] by simp_all
    note S = sum_bounds [OF A1 A2 A3 B1 B2, folded s]
    note D = diff_bounds [OF S]
    from A2 have "d1 ! i < 20" by simp
    with A1 S D show ?thesis by simp
  qed
  with eq l1 l2 show ?thesis by blast
qed

text \<open>
  The generator \<open>two_draws\<close> keeps the promise of \<open>rand\<close>, so the theorem applies to it.
\<close>

lemma two_draws_uniform: "uniform_doubles two_draws"
proof -
  have "is_double (1 / 2)" and "is_double (1 - 1 / 2 ^ 53)"
    unfolding is_double_def by code_simp+
  then show ?thesis by (simp add: uniform_doubles_def two_draws_def)
qed

theorem data_bounds_witness:
  "uniform_doubles two_draws \<and>
   (\<exists>d1 d2. fst (prepare_data two_draws 0) = Inr (d1, d2) \<and>
      d1 ! 0 < 20 \<and> d1 ! 0 \<le> d2 ! 0 \<and> d2 ! 0 - d1 ! 0 \<le> 10)"
  using data_bounds [OF two_draws_uniform, of 0] two_draws_uniform by fastforce

text \<open>
  The strict bound of C9 fails. With \<open>0.5\<close> drawn for \<open>data1\<close> and the largest binary64
  number below one, \<open>9007199254740991 / 9007199254740992\<close>, drawn for the second sample,
  \<open>data1[0] = 10\<close>, the second term is \<open>10 - 2 powi -49\<close>, and their sum lies half way
  between two binary64 numbers and rounds to the even one, \<open>20\<close>: the difference is
  exactly 10.
\<close>

lemma fl_half_20: "fmul (1 / 2) 20 = 10"
  unfolding fmul_def by code_simp

lemma fl_tie_20: "fadd 10 (fmul (9007199254740991 / 9007199254740992) 10) = 20"
  unfolding fadd_def fmul_def by code_simp

lemma fsub_20_10: "fsub 20 10 = 10"
  unfolding fsub_def by code_simp

theorem strict_bound_counterexample:
  "uniform_doubles two_draws \<and>
   (case fst (prepare_data two_draws (seed two_draws 1)) of
      Inl e \<Rightarrow> False
    | Inr (d1, d2) \<Rightarrow> d1 ! 0 = 10 \<and> d2 ! 0 = 20 \<and> \<not> d2 ! 0 - d1 ! 0 < 10 \<and>
                       \<not> fsub (d2 ! 0) (d1 ! 0) < 10)"
proof -
  have "fst (prepare_data two_draws (seed two_draws 1)) =
          Inr (np_scale (replicate 1000 (1 / 2)) 20,
               map2 fadd (np_scale (replicate 1000 (1 / 2)) 20)
                         (np_scale (replicate 1000 (1 - 1 / 2 ^ 53)) 10))"
    using prepare_data_eq [OF two_draws_uniform, of "seed two_draws 1"]
    by (simp add: two_draws_def)
  then show ?thesis
    by (simp add: two_draws_uniform np_scale_def fl_half_20 fl_tie_20 fsub_20_10)
qed

section \<open>Re-seeding makes the rank correlation examples repeatable\<close>

text \<open>
  Each complete example starts with \<open>seed(1)\<close>. Whatever the machine was like before,
  the example binds the same variables (or ends with the same exception), prints the same
  lines after what was on the console, and leaves the generator in the same state.
\<close>

lemma report_console:
  "report title c pv w =
     w\<lparr>console := console w @
        [Fmt title c,
         if pv > fl (5 / 100)
         then Fmt ''Samples are uncorrelated (fail to reject H0) p=%.3f'' pv
         else Fmt ''Samples are correlated (reject H0) p=%.3f'' pv]\<rparr>"
  by (simp add: report_def print_line_def Let_def)

lemma test_dataset_fixed:
  "\<exists>res lines gf. \<forall>w :: ('g, 'c, rat printed) world.
      test_dataset_example np w = (res, w\<lparr>rng := gf, console := console w @ lines\<rparr>)"
proof -
  obtain r g where pd: "prepare_data np (seed np 1) = (r, g)"
    by (cases "prepare_data np (seed np 1)")
  show ?thesis
  proof (cases r)
    case (Inl e)
    with pd have "\<forall>w :: ('g, 'c, rat printed) world.
        test_dataset_example np w = (Inl e, w\<lparr>rng := g, console := console w @ []\<rparr>)"
      by (simp add: test_dataset_example_def)
    then show ?thesis by blast
  next
    case (Inr d)
    obtain d1 d2 where d: "d = (d1, d2)" by (cases d)
    with pd Inr have "\<forall>w :: ('g, 'c, rat printed) world.
        test_dataset_example np w =
          (Inr (d1, d2), w\<lparr>rng := g, console := console w @ [Scatter d1 d2]\<rparr>)"
      by (simp add: test_dataset_example_def print_line_def)
    then show ?thesis by blast
  qed
qed

lemma spearman_fixed:
  "\<exists>res lines gf. \<forall>w :: ('g, 'c, rat printed) world.
      spearman_example np st w = (res, w\<lparr>rng := gf, console := console w @ lines\<rparr>)"
proof -
  obtain r g where pd: "prepare_data np (seed np 1) = (r, g)"
    by (cases "prepare_data np (seed np 1)")
  show ?thesis
  proof (cases r)
    case (Inl e)
    with pd have "\<forall>w :: ('g, 'c, rat printed) world.
        spearman_example np st w = (Inl e, w\<lparr>rng := g, console := console w @ []\<rparr>)"
      by (simp add: spearman_example_def)
    then show ?thesis by blast
  next
    case (Inr d)
    obtain d1 d2 where d: "d = (d1, d2)" by (cases d)
    show ?thesis
    proof (cases "spearmanr st d1 d2")
      case (Inl e)
      with pd Inr d have "\<forall>w :: ('g, 'c, rat printed) world.
          spearman_example np st w = (Inl e, w\<lparr>rng := g, console := console w @ []\<rparr>)"
        by (simp add: spearman_example_def)
      then show ?thesis by blast
    next
      case (Inr cp)
      obtain c pv where cp: "cp = (c, pv)" by (cases cp)
      with pd \<open>r = Inr d\<close> d Inr have "\<forall>w :: ('g, 'c, rat printed) world.
          spearman_example np st w =
            (Inr \<lparr>data1 = d1, data2 = d2, coef = c, pval = pv\<rparr>,
             w\<lparr>rng := g, console := console w @
                [Fmt ''Spearmans correlation coefficient: %.3f'' c,
                 if pv > fl (5 / 100)
                 then Fmt ''Samples are uncorrelated (fail to reject H0) p=%.3f'' pv
                 else Fmt ''Samples are correlated (reject H0) p=%.3f'' pv]\<rparr>)"
        by (simp add: spearman_example_def report_console)
      then show ?thesis by blast
    qed
  qed
qed

lemma kendall_fixed:
  "\<exists>res lines gf. \<forall>w :: ('g, 'c, rat printed) world.
      kendall_example np st w = (res, w\<lparr>rng := gf, console := console w @ lines\<rparr>)"
proof -
  obtain r g where pd: "prepare_data np (seed np 1) = (r, g)"
    by (cases "prepare_data np (seed np 1)")
  show ?thesis
  proof (cases r)
    case (Inl e)
    with pd have "\<forall>w :: ('g, 'c, rat printed) world.
        kendall_example np st w = (Inl e, w\<lparr>rng := g, console := console w @ []\<rparr>)"
      by (simp add: kendall_example_def)
    then show ?thesis by blast
  next
    case (Inr d)
    obtain d1 d2 where d: "d = (d1, d2)" by (cases d)
    show ?thesis
    proof (cases "kendalltau st d1 d2")
      case (Inl e)
      with pd Inr d have "\<forall>w :: ('g, 'c, rat printed) world.
          kendall_example np st w = (Inl e, w\<lparr>rng := g, console := console w @ []\<rparr>)"
        by (simp add: kendall_example_def)
      then show ?thesis by blast
    next
      case (Inr cp)
      obtain c pv where cp: "cp = (c, pv)" by (cases cp)
      with pd \<open>r = Inr d\<close> d Inr have "\<forall>w :: ('g, 'c, rat printed) world.
          kendall_example np st w =
            (Inr \<lparr>data1 = d1, data2 = d2, coef = c, pval = pv\<rparr>,
             w\<lparr>rng := g, console := console w @
                [Fmt ''Kendall correlation coefficient: %.3f'' c,
                 if pv > fl (5 / 100)
                 then Fmt ''Samples are uncorrelated (fail to reject H0) p=%.3f'' pv
                 else Fmt ''Samples are correlated (reject H0) p=%.3f'' pv]\<rparr>)"
        by (simp add: kendall_example_def report_console)
      then show ?thesis by blast
    qed
  qed
qed

text \<open>
  C6. Every complete example of the rank correlation notebook is deterministic: there is
  one result (the samples \<open>data1\<close> and \<open>data2\<close>, the coefficient and the p-value, or
  the exception), one list of printed lines and one final generator state that every
  execution produces, whatever state it starts in, because the example re-seeds the
  generator with \<open>seed(1)\<close> before it draws the data.
\<close>

theorem reseeded_examples_deterministic:
  "(\<exists>res lines gf. \<forall>w :: ('g, 'c, rat printed) world.
      test_dataset_example np w = (res, w\<lparr>rng := gf, console := console w @ lines\<rparr>)) \<and>
   (\<exists>res lines gf. \<forall>w :: ('g, 'c, rat printed) world.
      spearman_example np st w = (res, w\<lparr>rng := gf, console := console w @ lines\<rparr>)) \<and>
   (\<exists>res lines gf. \<forall>w :: ('g, 'c, rat printed) world.
      kendall_example np st w = (res, w\<lparr>rng := gf, console := console w @ lines\<rparr>))"
  using test_dataset_fixed [of np] spearman_fixed [of np st] kendall_fixed [of np st] by blast

section \<open>The covariance matrix\<close>

lemma covariance_commute:
  assumes "length a = length b"
  shows "covariance a b = covariance b a"
proof -
  have "map2 (\<lambda>u v. (u - ma) * (v - mb)) a b = map2 (\<lambda>u v. (u - mb) * (v - ma)) b a" for ma mb
    using assms by (induction a b rule: list_induct2) (simp_all add: mult.commute)
  then show ?thesis
    using assms by (auto simp: covariance_def split: option.splits)
qed

lemma covariance_self: "covariance a a = var a"
proof -
  have "map2 (\<lambda>u v. (u - m) * (v - m)) a a = map (\<lambda>u. (u - m)\<^sup>2) a" for m
    by (induction a) (simp_all add: power2_eq_square)
  then show ?thesis
    by (auto simp: covariance_def var_def split: option.splits)
qed

lemma covariance_defined:
  assumes "length a = length b" "2 \<le> length a"
  shows "\<exists>c. covariance a b = Some c"
  using assms by (auto simp: covariance_def mean_def)

text \<open>
  C1. For every pair of real vectors of equal length the matrix \<open>Sigma\<close> that
  \<open>cov(x, y)\<close> returns is symmetric, \<open>Sigma[0][1] = Sigma[1][0]\<close>; its off-diagonal
  entries are the sample covariance of the pair and its diagonal entries are the sample
  variances of \<open>x\<close> and of \<open>y\<close>. With fewer than two elements the formulas divide by
  zero and every entry, like the covariance and the variances, has no value; with two or
  more, every entry is a number.
\<close>

theorem cov_matrix_symmetric:
  assumes "length a = length b"
  shows "\<exists>S. cov a b = Inr S \<and>
           S ! 0 ! 1 = S ! 1 ! 0 \<and>
           S ! 0 ! 1 = covariance a b \<and> S ! 1 ! 0 = covariance b a \<and>
           S ! 0 ! 0 = var a \<and> S ! 1 ! 1 = var b \<and>
           (2 \<le> length a \<longrightarrow> (\<forall>i<2. \<forall>j<2. \<exists>c. S ! i ! j = Some c))"
proof -
  have d: "\<exists>c. [[covariance a a, covariance a b], [covariance b a, covariance b b]] ! i ! j = Some c"
    if "2 \<le> length a" "i < 2" "j < 2" for i j
  proof -
    from that(2,3) have "i = 0 \<or> i = 1" "j = 0 \<or> j = 1" by auto
    with covariance_defined [of a a] covariance_defined [of a b]
      covariance_defined [of b a] covariance_defined [of b b] assms that(1)
    show ?thesis by auto
  qed
  show ?thesis
    using assms d by (simp add: cov_def covariance_self covariance_commute [OF assms])
qed

theorem cov_matrix_symmetric_witness:
  "length vec_x = length vec_y \<and>
   (\<exists>S. cov vec_x vec_y = Inr S \<and> S ! 0 ! 1 = S ! 1 ! 0 \<and>
      S ! 0 ! 1 = covariance vec_x vec_y \<and> S ! 0 ! 0 = var vec_x \<and> S ! 1 ! 1 = var vec_y \<and>
      (\<exists>c. S ! 0 ! 1 = Some c))"
proof -
  have l: "length vec_x = length vec_y" by (simp add: vec_x_def vec_y_def)
  have n: "2 \<le> length vec_x" by (simp add: vec_x_def)
  from cov_matrix_symmetric [OF l] obtain S where S: "cov vec_x vec_y = Inr S" "S ! 0 ! 1 = S ! 1 ! 0"
    "S ! 0 ! 1 = covariance vec_x vec_y" "S ! 0 ! 0 = var vec_x" "S ! 1 ! 1 = var vec_y"
    and d: "2 \<le> length vec_x \<longrightarrow> (\<forall>i<2. \<forall>j<2. \<exists>c. S ! i ! j = Some c)"
    by blast
  from d n have "\<exists>c. S ! 0 ! 1 = Some c" by simp
  with S l show ?thesis by blast
qed

text \<open>The vectors of the notebook, evaluated.\<close>

lemma cov_xy: "cov vec_x vec_y = Inr [[Some (15 / 2), Some (- 15 / 2)], [Some (- 15 / 2), Some (15 / 2)]]"
  by (simp add: cov_def covariance_def mean_def vec_x_def vec_y_def)

lemma var_x: "var vec_x = Some (15/2)" "var vec_y = Some (15/2)"
  by (simp_all add: var_def mean_def vec_x_def vec_y_def power2_eq_square)

lemma corr_xy: "corrcoef vec_x vec_y = Inr [[Some 1, Some (- 1)], [Some (- 1), Some 1]]"
proof -
  have c: "covariance vec_x vec_y = Some (- 15 / 2)" "covariance vec_y vec_x = Some (- 15 / 2)"
    "covariance vec_x vec_x = Some (15 / 2)" "covariance vec_y vec_y = Some (15 / 2)"
    by (simp_all add: covariance_def mean_def vec_x_def vec_y_def)
  have s: "sqrt (15 / 2) * sqrt (15 / 2) = 15 / 2" by simp
  have l: "length vec_x = length vec_y" by (simp add: vec_x_def vec_y_def)
  show ?thesis
    using s l by (simp add: corrcoef_def correlation_def std_def var_x c)
qed

text \<open>
  C10. For \<open>x = [1, ..., 9]\<close> and \<open>y = [9, ..., 1]\<close> the results are exact and are
  the recorded outputs: \<open>cov(x, y)\<close> is \<open>[[7.5, -7.5], [-7.5, 7.5]]\<close> and
  \<open>corrcoef(x, y)\<close> is \<open>[[1, -1], [-1, 1]]\<close>; the three cells print the two vectors
  and then \<open>-7.5\<close>, the correlation matrix and the covariance matrix.
\<close>

theorem recorded_covariances:
  fixes w :: "('g, 'c, real printed) world"
  shows "cov vec_x vec_y = Inr [[Some (15 / 2), Some (- 15 / 2)], [Some (- 15 / 2), Some (15 / 2)]] \<and>
     corrcoef vec_x vec_y = Inr [[Some 1, Some (- 1)], [Some (- 1), Some 1]] \<and>
     covariance_matrix_example w =
       (Inr [[Some (15 / 2), Some (- 15 / 2)], [Some (- 15 / 2), Some (15 / 2)]],
        w\<lparr>console := console w @
           [PrintVec vec_x, PrintVec vec_y,
            PrintMat [[Some (15 / 2), Some (- 15 / 2)], [Some (- 15 / 2), Some (15 / 2)]]]\<rparr>) \<and>
     corrcoef_example w =
       (Inr [[Some 1, Some (- 1)], [Some (- 1), Some 1]],
        w\<lparr>console := console w @
           [PrintVec vec_x, PrintVec vec_y,
            PrintMat [[Some 1, Some (- 1)], [Some (- 1), Some 1]]]\<rparr>) \<and>
     covariance_example w =
       (Inr (Some (- 15 / 2)),
        w\<lparr>console := console w @ [PrintVec vec_x, PrintVec vec_y, PrintNum (Some (- 15 / 2))]\<rparr>)"
  by (simp add: cov_xy corr_xy covariance_matrix_example_def corrcoef_example_def
      covariance_example_def covariance_matrix_cell_def corrcoef_cell_def covariance_cell_def
      print_line_def Let_def)

section \<open>The R recipe: the model file\<close>

lemma save_and_load_state:
  "files (snd (save_and_load R w)) =
     (files w)(''./final_model.rds'' \<mapsto>
        serialize R (fst (randomForest R
          (take_rows (Sonar R)
             (fst (createDataPartition R (Class (Sonar R)) (80 / 100) (set_seed R 7))))
          2 2000 (set_seed R 7))))"
  "workers (snd (save_and_load R w)) = Some 8"
  by (simp_all add: save_and_load_def train_and_save_def load_and_predict_def saveRDS_def
      registerDoMC_def print_line_def split_beta Let_def split: sum.splits)

text \<open>
  C2. Saving the trained random forest with \<open>saveRDS\<close> to \<open>./final_model.rds\<close> and
  loading it with \<open>readRDS\<close> is a round trip: for a runtime whose \<open>unserialize\<close>
  reads back what \<open>serialize\<close> wrote, the recipe ends normally, the file holds the
  serialized \<open>final_model\<close>, \<open>super_model\<close> is \<open>final_model\<close>, and the predictions
  on \<open>validation[,1:60]\<close> are the ones \<open>final_model\<close> gives there.
\<close>

theorem save_load_round_trip:
  assumes "\<forall>m. unserialize R (serialize R m) = Some m"
  shows "\<exists>vars w'. save_and_load R w = (Inr vars, w') \<and>
           super_model vars = final_model vars \<and>
           files w' ''./final_model.rds'' = Some (serialize R (final_model vars)) \<and>
           final_predictions vars =
             fst (predict R (final_model vars) (columns_1_60 (validation vars))
                    (snd (randomForest R (training vars) 2 2000 (set_seed R 7))))"
  using assms
  by (simp add: save_and_load_def train_and_save_def load_and_predict_def saveRDS_def
      readRDS_def registerDoMC_def print_line_def split_beta Let_def)

lemma toy_round_trip: "\<forall>m. unserialize toy_runtime (serialize toy_runtime m) = Some m"
  by (simp add: toy_runtime_def)

theorem save_load_round_trip_witness:
  "(\<forall>m. unserialize toy_runtime (serialize toy_runtime m) = Some m) \<and>
   (\<exists>vars w'. save_and_load toy_runtime (empty_world :: (nat, nat list, nat r_printed) world)
        = (Inr vars, w') \<and>
      super_model vars = final_model vars \<and>
      files w' ''./final_model.rds'' = Some (serialize toy_runtime (final_model vars)))"
  using save_load_round_trip [OF toy_round_trip,
      of "empty_world :: (nat, nat list, nat r_printed) world"] toy_round_trip
  by blast

section \<open>What the scripts leave on the machine\<close>

lemma python_examples_frame:
  fixes w :: "('g, 'c, rat printed) world" and v :: "('h, 'd, real printed) world"
  shows "files (snd (test_dataset_example np w)) = files w"
    and "files (snd (spearman_example np st w)) = files w"
    and "files (snd (kendall_example np st w)) = files w"
    and "files (snd (covariance_cell a b v)) = files v"
    and "files (snd (corrcoef_cell a b v)) = files v"
    and "files (snd (covariance_matrix_cell a b v)) = files v"
    and "workers (snd (test_dataset_example np w)) = workers w"
    and "workers (snd (spearman_example np st w)) = workers w"
    and "workers (snd (kendall_example np st w)) = workers w"
    and "workers (snd (covariance_cell a b v)) = workers v"
    and "workers (snd (corrcoef_cell a b v)) = workers v"
    and "workers (snd (covariance_matrix_cell a b v)) = workers v"
  by (simp_all add: test_dataset_example_def spearman_example_def kendall_example_def
      covariance_cell_def corrcoef_cell_def covariance_matrix_cell_def report_console
      print_line_def split_beta Let_def split: sum.splits)

text \<open>
  C5, as amended. The examples of the rank correlation notebook and the covariance cells
  of the NumPy notebook work on arrays in memory and leave every file as it was. The R
  recipe does leave state on disk, under a name the recipe chooses: after it, the working
  directory holds \<open>./final_model.rds\<close> with the serialized model, and no other file
  has changed.
\<close>

theorem files_left_by_the_scripts:
  fixes w :: "('g, 'c, rat printed) world" and v :: "('h, 'd, real printed) world"
  shows "files (snd (test_dataset_example np w)) = files w \<and>
     files (snd (spearman_example np st w)) = files w \<and>
     files (snd (kendall_example np st w)) = files w \<and>
     files (snd (covariance_cell a b v)) = files v \<and>
     files (snd (corrcoef_cell a b v)) = files v \<and>
     files (snd (covariance_matrix_cell a b v)) = files v \<and>
     files (snd (save_and_load R u)) =
       (files u)(''./final_model.rds'' \<mapsto>
          serialize R (fst (randomForest R
            (take_rows (Sonar R)
               (fst (createDataPartition R (Class (Sonar R)) (80 / 100) (set_seed R 7))))
            2 2000 (set_seed R 7))))"
  by (simp only: python_examples_frame save_and_load_state simp_thms)

text \<open>
  C5 as stated, "executing a script creates no on-disk state", fails for the recipe: run
  in an empty directory it leaves \<open>./final_model.rds\<close>.
\<close>

theorem recipe_leaves_a_file:
  "files (empty_world :: (nat, nat list, nat r_printed) world) ''./final_model.rds'' = None \<and>
   files (snd (save_and_load toy_runtime (empty_world :: (nat, nat list, nat r_printed) world)))
      ''./final_model.rds'' = Some [3]"
  by (simp add: save_and_load_state empty_world_def toy_runtime_def take_rows_def Class_def)

text \<open>
  C8, as amended. No example implements concurrency or scheduling, and the Python
  examples register no parallel backend; the R recipe, however, configures parallel
  execution itself: its call \<open>registerDoMC(cores=8)\<close> registers a backend of eight
  workers, whatever was registered before. The parallel work is the library's.
\<close>

theorem parallel_backend_of_the_scripts:
  fixes w :: "('g, 'c, rat printed) world" and v :: "('h, 'd, real printed) world"
  shows "workers (snd (test_dataset_example np w)) = workers w \<and>
     workers (snd (spearman_example np st w)) = workers w \<and>
     workers (snd (kendall_example np st w)) = workers w \<and>
     workers (snd (covariance_cell a b v)) = workers v \<and>
     workers (snd (corrcoef_cell a b v)) = workers v \<and>
     workers (snd (covariance_matrix_cell a b v)) = workers v \<and>
     workers (snd (save_and_load R u)) = Some 8"
  by (simp only: python_examples_frame save_and_load_state simp_thms)

text \<open>
  C8 as stated, "no repository code configuring or steering parallel execution", fails for
  the recipe: started with no backend it ends with eight workers registered.
\<close>

theorem recipe_configures_workers:
  "workers (empty_world :: (nat, nat list, nat r_printed) world) = None \<and>
   workers (snd (save_and_load toy_runtime (empty_world :: (nat, nat list, nat r_printed) world)))
     = Some 8"
  by (simp add: save_and_load_state empty_world_def)

section \<open>Exceptions of the libraries end the script\<close>

text \<open>
  No cell has a \<open>try\<close> and the recipe has no \<open>tryCatch\<close>; no script checks its
  data before it calls the library.
\<close>

lemma spearman_raises:
  assumes "fst (prepare_data np (seed np 1)) = Inr (d1, d2)" "spearmanr st d1 d2 = Inl e"
  shows "fst (spearman_example np st w) = Inl e"
  using assms by (simp add: spearman_example_def split_beta Let_def)

lemma kendall_raises:
  assumes "fst (prepare_data np (seed np 1)) = Inr (d1, d2)" "kendalltau st d1 d2 = Inl e"
  shows "fst (kendall_example np st w) = Inl e"
  using assms by (simp add: kendall_example_def split_beta Let_def)

lemma prepare_raises:
  assumes "fst (prepare_data np (seed np 1)) = Inl e"
  shows "fst (test_dataset_example np w) = Inl e"
    and "fst (spearman_example np st w) = Inl e"
    and "fst (kendall_example np st w) = Inl e"
  using assms
  by (simp_all add: test_dataset_example_def spearman_example_def kendall_example_def
      split_beta Let_def)

lemma cov_cells_raise:
  "cov a b = Inl e \<Longrightarrow> fst (covariance_cell a b w) = Inl e"
  "cov a b = Inl e \<Longrightarrow> fst (covariance_matrix_cell a b w) = Inl e"
  "corrcoef a b = Inl e \<Longrightarrow> fst (corrcoef_cell a b w) = Inl e"
  by (simp_all add: covariance_cell_def covariance_matrix_cell_def corrcoef_cell_def Let_def)

lemma recipe_raises:
  "readRDS R ''./final_model.rds'' (snd (train_and_save R u)) = Inl e \<Longrightarrow>
   fst (save_and_load R u) = Inl e"
  by (simp add: save_and_load_def load_and_predict_def split_beta)

lemma ragged_data: "fst (prepare_data ragged_draws (seed ragged_draws 1)) = Inl ValueError"
  by (simp add: prepare_data_def ragged_draws_def np_add_def np_scale_def)

lemma lossy_read:
  "readRDS lossy_runtime ''./final_model.rds''
     (snd (train_and_save lossy_runtime (empty_world :: (nat, nat list, nat r_printed) world)))
     = Inl (LibraryError ''unknown input format'')"
  by (simp add: readRDS_def train_and_save_def saveRDS_def lossy_runtime_def toy_runtime_def
      split_beta Let_def)

text \<open>
  C4. When a library call of a script raises, the script ends with exactly that error:
  the array sum of the data preparation, \<open>spearmanr\<close>, \<open>kendalltau\<close>, \<open>cov\<close> and
  \<open>corrcoef\<close> (for vectors of different lengths, say) in the Python examples, and
  \<open>readRDS\<close> in the R recipe.
\<close>

theorem library_error_propagates:
  "(fst (prepare_data np (seed np 1)) = Inl e \<longrightarrow>
      fst (test_dataset_example np w) = Inl e \<and>
      fst (spearman_example np st w) = Inl e \<and>
      fst (kendall_example np st w) = Inl e) \<and>
   (fst (prepare_data np (seed np 1)) = Inr (d1, d2) \<longrightarrow>
      (spearmanr st d1 d2 = Inl e \<longrightarrow> fst (spearman_example np st w) = Inl e) \<and>
      (kendalltau st d1 d2 = Inl e \<longrightarrow> fst (kendall_example np st w) = Inl e)) \<and>
   (cov a b = Inl e \<longrightarrow>
      fst (covariance_cell a b v) = Inl e \<and> fst (covariance_matrix_cell a b v) = Inl e) \<and>
   (corrcoef a b = Inl e \<longrightarrow> fst (corrcoef_cell a b v) = Inl e) \<and>
   (readRDS R ''./final_model.rds'' (snd (train_and_save R u)) = Inl e \<longrightarrow>
      fst (save_and_load R u) = Inl e)"
  by (auto intro: spearman_raises kendall_raises prepare_raises cov_cells_raise recipe_raises)

lemma two_draws_data:
  "fst (prepare_data two_draws (seed two_draws 1)) =
     Inr (np_scale (replicate 1000 (1 / 2)) 20,
          map2 fadd (np_scale (replicate 1000 (1 / 2)) 20)
                    (np_scale (replicate 1000 (1 - 1 / 2 ^ 53)) 10))"
  using prepare_data_eq [OF two_draws_uniform, of "seed two_draws 1"]
  by (simp add: two_draws_def)

theorem library_error_propagates_witness:
  "fst (spearman_example two_draws rejecting_stats
          (empty_world :: (nat, unit, rat printed) world)) = Inl ValueError \<and>
   fst (kendall_example two_draws rejecting_stats
          (empty_world :: (nat, unit, rat printed) world)) = Inl (LibraryError ''kendalltau'') \<and>
   fst (test_dataset_example ragged_draws
          (empty_world :: (nat, unit, rat printed) world)) = Inl ValueError \<and>
   fst (covariance_matrix_cell [1, 2] [1]
          (empty_world :: (nat, unit, real printed) world)) = Inl ValueError \<and>
   fst (corrcoef_cell [1, 2] [1]
          (empty_world :: (nat, unit, real printed) world)) = Inl ValueError \<and>
   fst (save_and_load lossy_runtime
          (empty_world :: (nat, nat list, nat r_printed) world))
     = Inl (LibraryError ''unknown input format'')"
proof -
  let ?d1 = "np_scale (replicate 1000 (1 / 2)) 20"
  let ?d2 = "map2 fadd (np_scale (replicate 1000 (1 / 2)) 20)
               (np_scale (replicate 1000 (1 - 1 / 2 ^ 53)) 10)"
  have s: "spearmanr rejecting_stats ?d1 ?d2 = Inl ValueError"
    and k: "kendalltau rejecting_stats ?d1 ?d2 = Inl (LibraryError ''kendalltau'')"
    by (simp_all add: rejecting_stats_def)
  have c: "cov [1, 2] [1] = Inl ValueError" "corrcoef [1, 2] [1] = Inl ValueError"
    by (simp_all add: cov_def corrcoef_def)
  have 1: "fst (spearman_example two_draws rejecting_stats
                  (empty_world :: (nat, unit, rat printed) world)) = Inl ValueError"
    using library_error_propagates [where np = two_draws and st = rejecting_stats
        and e = ValueError and ?d1.0 = ?d1 and ?d2.0 = ?d2] two_draws_data s
    by blast
  have 2: "fst (kendall_example two_draws rejecting_stats
                  (empty_world :: (nat, unit, rat printed) world))
             = Inl (LibraryError ''kendalltau'')"
    using library_error_propagates [where np = two_draws and st = rejecting_stats
        and e = "LibraryError ''kendalltau''" and ?d1.0 = ?d1 and ?d2.0 = ?d2] two_draws_data k
    by blast
  have 3: "fst (test_dataset_example ragged_draws
                  (empty_world :: (nat, unit, rat printed) world)) = Inl ValueError"
    using library_error_propagates [where np = ragged_draws and e = ValueError] ragged_data
    by blast
  have 4: "fst (covariance_matrix_cell [1, 2] [1]
                  (empty_world :: (nat, unit, real printed) world)) = Inl ValueError"
       "fst (corrcoef_cell [1, 2] [1]
                  (empty_world :: (nat, unit, real printed) world)) = Inl ValueError"
    using library_error_propagates [where a = "[1, 2]" and b = "[1]" and e = ValueError] c
    by blast+
  have 5: "fst (save_and_load lossy_runtime
                  (empty_world :: (nat, nat list, nat r_printed) world))
             = Inl (LibraryError ''unknown input format'')"
    using library_error_propagates [where R = lossy_runtime
        and e = "LibraryError ''unknown input format''"] lossy_read
    by blast
  from 1 2 3 4 5 show ?thesis by simp
qed

section \<open>Training the text generator leaves checkpoints\<close>

text \<open>
  Every character of the text has a number, so the loop over the windows never raises and
  builds one pattern of \<open>seq_length\<close> numbers for each index.
\<close>

lemma encode_total:
  assumes "\<forall>c \<in> set s. m c \<noteq> None"
  shows "\<exists>ks. encode m s = Inr ks \<and> length ks = length s"
  using assms by (induction s) auto

lemma char_to_int_total:
  assumes "c \<in> set txt"
  shows "char_to_int_of (chars_of txt) c \<noteq> None"
proof -
  have "c \<in> set (chars_of txt)" using assms by (simp add: chars_of_def)
  then show ?thesis
    unfolding char_to_int_of_def by (simp add: map_of_zip_is_None)
qed

lemma windows_total:
  assumes "\<forall>c \<in> set txt. m c \<noteq> None" "\<forall>i \<in> set ixs. i + L < length txt"
    "\<forall>row \<in> set dX. length row = L"
  shows "\<exists>dX' dY'. windows m txt L ixs (dX, dY) = Inr (dX', dY') \<and>
           length dX' = length dX + length ixs \<and> length dY' = length dY + length ixs \<and>
           (\<forall>row \<in> set dX'. length row = L)"
  using assms(2,3)
proof (induction ixs arbitrary: dX dY)
  case Nil
  then show ?case by simp
next
  case (Cons i ixs)
  from Cons.prems(1) have i: "i + L < length txt" by simp
  have "\<forall>c \<in> set (take L (drop i txt)). m c \<noteq> None"
    using assms(1) by (meson in_set_dropD in_set_takeD)
  from encode_total [OF this] obtain ks
    where ks: "encode m (take L (drop i txt)) = Inr ks" "length ks = length (take L (drop i txt))"
    by blast
  from i have lk: "length ks = L" using ks(2) by simp
  from i assms(1) obtain k where k: "m (txt ! (i + L)) = Some k"
    by (metis nth_mem not_None_eq)
  have "\<exists>dX' dY'. windows m txt L ixs (dX @ [ks], dY @ [k]) = Inr (dX', dY') \<and>
           length dX' = length (dX @ [ks]) + length ixs \<and>
           length dY' = length (dY @ [k]) + length ixs \<and>
           (\<forall>row \<in> set dX'. length row = L)"
    using Cons.prems lk by (intro Cons.IH) auto
  then show ?case using i ks(1) k by (simp add: Let_def)
qed

lemma on_epoch_end_keeps:
  assumes "\<exists>wt. files w k = Some (Hdf5 wt)"
  shows "\<exists>wt. files (snd (on_epoch_end cb e l net w)) k = Some (Hdf5 wt)"
  using assms by (auto simp: on_epoch_end_def save_weights_def print_line_def)

lemma run_callbacks_keeps:
  assumes "\<exists>wt. files w k = Some (Hdf5 wt)"
  shows "\<exists>wt. files (snd (run_callbacks cbs e l net w)) k = Some (Hdf5 wt)"
  using assms
proof (induction cbs arbitrary: w)
  case Nil
  then show ?case by simp
next
  case (Cons cb cbs)
  from on_epoch_end_keeps [OF Cons.prems, of cb e l net]
  have "\<exists>wt. files (snd (run_callbacks cbs e l net (snd (on_epoch_end cb e l net w)))) k
          = Some (Hdf5 wt)"
    by (rule Cons.IH)
  then show ?case by (simp add: split_beta Let_def)
qed

lemma fit_epochs_keeps:
  assumes "\<exists>wt. files w k = Some (Hdf5 wt)"
  shows "(\<exists>wt. files (snd (snd (fit_epochs K X y n b es (net, cbs, w)))) k = Some (Hdf5 wt)) \<and>
         layers (fst (fit_epochs K X y n b es (net, cbs, w))) = layers net"
  using assms
proof (induction es arbitrary: net cbs w)
  case Nil
  then show ?case by simp
next
  case (Cons e es)
  define w1 where "w1 = print_line (EpochBegin e n) w"
  define r where "r = train_epoch K net X y b (rng w1)"
  define net' where "net' = net\<lparr>weights := fst (fst r)\<rparr>"
  define c where "c = run_callbacks cbs e (snd (fst r)) net' (w1\<lparr>rng := snd r\<rparr>)"
  have "\<exists>wt. files (w1\<lparr>rng := snd r\<rparr>) k = Some (Hdf5 wt)"
    using Cons.prems by (simp add: w1_def print_line_def)
  from run_callbacks_keeps [OF this, of cbs e "snd (fst r)" net']
  have "\<exists>wt. files (snd c) k = Some (Hdf5 wt)" by (simp add: c_def)
  from Cons.IH [OF this, of net' "fst c"]
  show ?case
    by (simp add: split_beta Let_def w1_def [symmetric] r_def [symmetric] net'_def [symmetric]
        c_def [symmetric]) (simp add: net'_def)
qed

lemma first_epoch_saves:
  "\<exists>l wt. files (snd (run_callbacks [ModelCheckpoint ''loss'' 1 True ''min''] 1 l0 net w))
      (filepath 1 l) = Some (Hdf5 wt)"
  by (rule exI [of _ l0])
    (simp add: ModelCheckpoint_def on_epoch_end_def improves_def save_weights_def print_line_def)

lemma fit_first_epoch:
  "(\<exists>l wt. files (snd (snd (fit_epochs K X y n b (1 # es)
         (net, [ModelCheckpoint ''loss'' 1 True ''min''], w))))
       (filepath 1 l) = Some (Hdf5 wt)) \<and>
   layers (fst (fit_epochs K X y n b (1 # es)
         (net, [ModelCheckpoint ''loss'' 1 True ''min''], w))) = layers net"
proof -
  define w1 where "w1 = print_line (EpochBegin 1 n) w"
  define r where "r = train_epoch K net X y b (rng w1)"
  define net' where "net' = net\<lparr>weights := fst (fst r)\<rparr>"
  define c where "c = run_callbacks [ModelCheckpoint ''loss'' 1 True ''min''] 1 (snd (fst r)) net'
                        (w1\<lparr>rng := snd r\<rparr>)"
  obtain l wt where s: "files (snd c) (filepath 1 l) = Some (Hdf5 wt)"
    using first_epoch_saves [of "snd (fst r)" net' "w1\<lparr>rng := snd r\<rparr>"]
    unfolding c_def by blast
  then have "\<exists>wt. files (snd c) (filepath 1 l) = Some (Hdf5 wt)" by blast
  note k = fit_epochs_keeps [OF this, of K X y n b es net' "fst c"]
  have e: "fit_epochs K X y n b (1 # es) (net, [ModelCheckpoint ''loss'' 1 True ''min''], w) =
        fit_epochs K X y n b es (net', fst c, snd c)"
    by (simp add: split_beta Let_def w1_def r_def net'_def c_def del: run_callbacks.simps)
  have "layers net' = layers net" by (simp add: net'_def)
  with k show ?thesis unfolding e by metis
qed

lemma fit_emits:
  "(\<exists>l wt. files (snd (snd (fit K net X y 20 128 [ModelCheckpoint ''loss'' 1 True ''min''] w)))
       (filepath 1 l) = Some (Hdf5 wt)) \<and>
   layers (fst (fit K net X y 20 128 [ModelCheckpoint ''loss'' 1 True ''min''] w)) = layers net"
proof -
  have u: "[1..<20 + 1] = 1 # [2..<21]" by (simp add: upt_rec)
  show ?thesis unfolding fit_def u by (rule fit_first_epoch)
qed

text \<open>
  C7. The repository contains an LSTM-based character-level text generator whose execution
  produces checkpoint files through the checkpoint callback of the library: given a
  \<open>wonderland.txt\<close> of more than 100 characters, the training script ends normally, the
  model it has built has the layer \<open>LSTM(256, input_shape=(100, 1))\<close>, it has made one
  training pattern per character after the first hundred, and the working directory holds
  a checkpoint of the first epoch, \<open>weights-improvement-01-<loss>.hdf5\<close>, with network
  weights in it.
\<close>

theorem training_emits_checkpoints:
  assumes "files w ''wonderland.txt'' = Some (Text t)" "100 < length t"
  shows "\<exists>vars w'. train_text_generator K w = (Inr vars, w') \<and>
           LSTM 256 (100, 1) \<in> set (layers (model vars)) \<and>
           n_patterns vars = n_chars vars - 100 \<and>
           (\<exists>l wt. files w' (filepath 1 l) = Some (Hdf5 wt))"
proof -
  define tx where "tx = lower t"
  define m where "m = char_to_int_of (chars_of tx)"
  have len: "length tx = length t" by (simp add: tx_def lower_def)
  have tot: "\<forall>c \<in> set tx. m c \<noteq> None"
    unfolding m_def using char_to_int_total by blast
  have rng: "\<forall>i \<in> set [0..<length tx - 100]. i + 100 < length tx" by auto
  from windows_total [OF tot rng, of "[]" "[]"] obtain dX dY where
    win: "windows m tx 100 [0..<length tx - 100] ([], []) = Inr (dX, dY)"
    and lX: "length dX = length tx - 100" and lY: "length dY = length tx - 100"
    and rows: "\<forall>row \<in> set dX. length row = 100"
    by auto
  from rows have resh: "reshape dX 100 = Inr (map (map (\<lambda>k. [of_nat k])) dX)"
    by (simp add: reshape_def list_all_iff)
  from lY assms(2) len have ne: "dY \<noteq> []" by auto
  then obtain y where cat: "to_categorical dY = Inr y" by (simp add: to_categorical_def)
  show ?thesis
    using assms(1) win resh cat lX
      fit_emits [of K _ "normalize (map (map (\<lambda>k. [of_nat k])) dX) (length (chars_of tx))" y]
    by (simp add: train_text_generator_def tx_def [symmetric] m_def [symmetric]
        split_beta Let_def ModelCheckpoint_def)
qed

text \<open>
  A run: the directory \<open>wonderland\<close> holds a text of 104 characters, and the theorem
  applies to it with the losses of the recorded run.
\<close>

lemma wonderland_file: "files wonderland ''wonderland.txt'' = Some (Text short_text)"
  by (simp add: wonderland_def)

lemma short_text_length: "100 < length short_text"
  unfolding short_text_def by code_simp

theorem training_emits_checkpoints_witness:
  "files wonderland ''wonderland.txt'' = Some (Text short_text) \<and> 100 < length short_text \<and>
   (\<exists>vars w'. train_text_generator recorded_keras wonderland = (Inr vars, w') \<and>
      LSTM 256 (100, 1) \<in> set (layers (model vars)) \<and>
      n_patterns vars = n_chars vars - 100 \<and>
      (\<exists>l wt. files w' (filepath 1 l) = Some (Hdf5 wt)))"
  using training_emits_checkpoints [OF wonderland_file short_text_length, of recorded_keras]
    wonderland_file short_text_length
  by blast

text \<open>
  The names of the checkpoints: the pattern gives the first and the last loss of the
  recorded run the names the run recorded, and the last one is the file the generation
  script loads.
\<close>

lemma digits_one: "n < 10 \<Longrightarrow> digits n = [char_of (48 + n)]"
  by (subst digits.simps) simp

lemma digits_more: "10 \<le> n \<Longrightarrow> digits n = digits (n div 10) @ [char_of (48 + n mod 10)]"
  by (subst digits.simps) simp

lemma digit_chars:
  "char_of (48 :: nat) = CHR ''0''" "char_of (49 :: nat) = CHR ''1''"
  "char_of (50 :: nat) = CHR ''2''" "char_of (51 :: nat) = CHR ''3''"
  "char_of (52 :: nat) = CHR ''4''" "char_of (53 :: nat) = CHR ''5''"
  "char_of (54 :: nat) = CHR ''6''" "char_of (55 :: nat) = CHR ''7''"
  "char_of (56 :: nat) = CHR ''8''" "char_of (57 :: nat) = CHR ''9''"
  by code_simp+

lemma filepath_eval:
  assumes "0 \<le> l" "nat (rne (l * 10 ^ 4)) = k"
  shows "filepath e l =
           ''weights-improvement-'' @ zfill 2 (digits e) @ ''-'' @
           digits (k div 10 ^ 4) @ ''.'' @ zfill 4 (digits (k mod 10 ^ 4)) @ ''.hdf5''"
  using assms by (simp add: filepath_def fixed4_def Let_def del: digits.simps)

lemma first_loss: "0 \<le> fl (304926 / 100000)" "nat (rne (fl (304926 / 100000) * 10 ^ 4)) = 30493"
  by code_simp+

lemma last_loss: "0 \<le> fl (205181 / 100000)" "nat (rne (fl (205181 / 100000) * 10 ^ 4)) = 20518"
  by code_simp+

lemma recorded_names:
  "filepath 1 (fl (304926 / 100000)) = ''weights-improvement-01-3.0493.hdf5'' \<and>
   filepath 20 (fl (205181 / 100000)) = ''weights-improvement-20-2.0518.hdf5''"
  unfolding filepath_eval [OF first_loss] filepath_eval [OF last_loss]
  by (simp add: zfill_def digits_one digits_more digit_chars del: digits.simps)

end
